theory Spec2Isabelle
  imports Complex_Main "HOL-Library.Word"
begin

unbundle bit_operations_syntax

section \<open>Machine integers, byte strings and errors\<close>

type_synonym u8 = "8 word"
type_synonym u32 = "32 word"
type_synonym u64 = "64 word"
type_synonym bytes = "u8 list"

text \<open>
  Errors that come from outside the relayer (the hub-chain node's RPC, the signature
  and key libraries).  Only their message is ever inspected (\<open>err.Error()\<close>).
\<close>

datatype ext_error = ExtError string

fun Error :: "ext_error \<Rightarrow> string" where
  "Error (ExtError m) = m"

text \<open>The two errors of Go's \<open>encoding/hex\<close>.\<close>

datatype hex_error = ErrLength | InvalidByteError char

text \<open>
  The errors the relayer itself builds.  Each constructor is one \<open>fmt.Errorf\<close> /
  \<open>errors.New\<close> site of poly.go, with the values the format string prints; the three
  sentinels of package \<open>msg\<close> wrapped through \<open>%w\<close> are \<open>ERR_INVALID_TX\<close>,
  \<open>ERR_TX_VOILATION\<close> and \<open>ERR_TX_PROOF_MISSING\<close>.  \<open>Panic\<close> is a Go run-time panic
  (nil dereference, failed type assertion, slice out of range).
\<close>

datatype error =
    External ext_error
  | HexError hex_error
  | InvalidSrcTx
  | DecodeSrcValueError string hex_error string
  | DecodeSrcProofError string hex_error string
  | ImportFailed ext_error
  | InvalidPolyHash
  | DstHeightNotSpecified
  | ERR_INVALID_TX u64 string string
  | GetCrossStatesProofError ext_error
  | DeserializationError ext_error
  | ValidToMerkleValueNotFound
  | KeeperNotProvided
  | ConsensusPayloadError ext_error
  | ConvertToEthCompatibleError ext_error
  | HasNoEvent string
  | ERR_TX_PROOF_MISSING
  | ERR_TX_VOILATION_SrcChainID u64 u64
  | ERR_TX_VOILATION_DstChainID u64 u64
  | ERR_TX_VOILATION_ToContract string string
  | Panic string

section \<open>Go's encoding/hex\<close>

text \<open>
  \<open>hex.DecodeString\<close> decodes pairs of hexadecimal digits.  At the first pair with a
  character that is no digit it stops with \<open>InvalidByteError\<close> of that character; a
  trailing single character gives \<open>InvalidByteError\<close> if it is no digit and
  \<open>ErrLength\<close> otherwise.  The bytes decoded so far are returned beside the error.
\<close>

definition fromHexChar :: "char \<Rightarrow> u8 option" where
  "fromHexChar c =
     (let n = (of_char c :: nat) in
      if 48 \<le> n \<and> n \<le> 57 then Some (of_nat (n - 48))
      else if 97 \<le> n \<and> n \<le> 102 then Some (of_nat (n - 97 + 10))
      else if 65 \<le> n \<and> n \<le> 70 then Some (of_nat (n - 65 + 10))
      else None)"

fun hex_Decode :: "string \<Rightarrow> bytes \<Rightarrow> bytes \<times> hex_error option" where
  "hex_Decode (p # q # rest) acc =
     (case fromHexChar p of
        None \<Rightarrow> (acc, Some (InvalidByteError p))
      | Some a \<Rightarrow>
          (case fromHexChar q of
             None \<Rightarrow> (acc, Some (InvalidByteError q))
           | Some b \<Rightarrow> hex_Decode rest (acc @ [push_bit 4 a OR b])))"
| "hex_Decode [p] acc =
     (case fromHexChar p of
        None \<Rightarrow> (acc, Some (InvalidByteError p))
      | Some a \<Rightarrow> (acc, Some ErrLength))"
| "hex_Decode [] acc = (acc, None)"

definition hex_DecodeString :: "string \<Rightarrow> bytes \<times> hex_error option" where
  "hex_DecodeString s = hex_Decode s []"

text \<open>go-ethereum's \<open>common.Hex2Bytes\<close>: \<open>hex.DecodeString\<close> with the error dropped.\<close>

definition Hex2Bytes :: "string \<Rightarrow> bytes" where
  "Hex2Bytes s = fst (hex_DecodeString s)"

definition hexdigit :: "u8 \<Rightarrow> char" where
  "hexdigit d = (''0123456789abcdef'') ! unat d"

definition hex_EncodeToString :: "bytes \<Rightarrow> string" where
  "hex_EncodeToString bs = concat (map (\<lambda>b. [hexdigit (drop_bit 4 b), hexdigit (b AND 15)]) bs)"

section \<open>The data model\<close>

text \<open>
  \<open>types.Header\<close> of the hub chain, with the fields poly.go reads.
\<close>

record Header =
  SigData :: "bytes list"
  NextBookkeeper :: bytes
  ConsensusPayload :: bytes

text \<open>\<open>ccom.MakeTxParam\<close> and \<open>ccom.ToMerkleValue\<close>, with the fields poly.go reads.\<close>

record MakeTxParam =
  Method :: string
  ToContractAddress :: bytes

record ToMerkleValue =
  MakeTxParam :: "MakeTxParam option"

datatype TxType = SRC | POLY | DST | NoType

text \<open>
  \<open>msg.Tx\<close>, the record carried through the pipeline.  A Go pointer field is an
  \<open>option\<close> (\<open>None\<close> is \<open>nil\<close>); \<open>new(msg.Tx)\<close> is the record of zero values.
\<close>

record Tx =
  TxType :: TxType
  Attempts :: int
  TxId :: string
  SrcHash :: string
  SrcHeight :: u64
  SrcChainId :: u64
  SrcProof :: string
  SrcEvent :: string
  SrcProofHeight :: u64
  Param :: "MakeTxParam option"
  PolyHash :: string
  PolyHeight :: u32
  PolyKey :: string
  PolyHeader :: "Header option"
  AnchorHeader :: "Header option"
  AnchorProof :: string
  MerkleValue :: "ToMerkleValue option"
  AuditPath :: bytes
  DstChainId :: u64
  DstProxy :: string
  DstPolyEpochStartHeight :: u32
  DstPolyKeepers :: bytes
  DstSigs :: bytes

definition new_Tx :: Tx where
  "new_Tx = \<lparr> TxType = NoType, Attempts = 0, TxId = [], SrcHash = [], SrcHeight = 0,
     SrcChainId = 0, SrcProof = [], SrcEvent = [], SrcProofHeight = 0, Param = None,
     PolyHash = [], PolyHeight = 0, PolyKey = [], PolyHeader = None, AnchorHeader = None,
     AnchorProof = [], MerkleValue = None, AuditPath = [], DstChainId = 0, DstProxy = [],
     DstPolyEpochStartHeight = 0, DstPolyKeepers = [], DstSigs = [] \<rparr>"

section \<open>The Submitter\<close>

text \<open>
  The fields of \<open>Submitter\<close> that the functions below read: its chain name and the hex
  string of the signer's address.
\<close>

record Submitter =
  name :: string
  signer_address :: string

subsection \<open>submit\<close>

text \<open>
  \<open>Native.Ccm.ImportOuterTransfer\<close> of the node: chain id, event value, proof height,
  proof, relayer address, extra bytes; it answers with the hex string of the hub-chain
  transaction hash and an error.
\<close>

type_synonym import_rpc = "u64 \<Rightarrow> bytes \<Rightarrow> u32 \<Rightarrow> bytes \<Rightarrow> bytes \<Rightarrow> bytes \<Rightarrow> string \<times> ext_error option"

definition missing_src_fields :: "Tx \<Rightarrow> bool" where
  "missing_src_fields tx \<longleftrightarrow>
     SrcHeight tx = 0 \<or> SrcProof tx = [] \<or> SrcEvent tx = [] \<or> SrcChainId tx = 0 \<or>
     SrcHash tx = [] \<or> SrcProofHeight tx = 0"

definition submit :: "Submitter \<Rightarrow> import_rpc \<Rightarrow> Tx \<Rightarrow> Tx \<times> error option" where
  "submit s ImportOuterTransfer tx =
     (if missing_src_fields tx then (tx, Some InvalidSrcTx)
      else
        (case hex_DecodeString (SrcEvent tx) of
           (val, Some e) \<Rightarrow> (tx, Some (DecodeSrcValueError (name s) e (SrcEvent tx)))
         | (val, None) \<Rightarrow>
             (case hex_DecodeString (SrcProof tx) of
                (prf, Some e) \<Rightarrow> (tx, Some (DecodeSrcProofError (name s) e (SrcProof tx)))
              | (prf, None) \<Rightarrow>
                  (case ImportOuterTransfer (SrcChainId tx) val (ucast (SrcProofHeight tx)) prf
                          (Hex2Bytes (signer_address s)) [] of
                     (t, Some e) \<Rightarrow> (tx, Some (ImportFailed e))
                   | (t, None) \<Rightarrow> (tx\<lparr>PolyHash := t\<rparr>, None)))))"

section \<open>Header sync\<close>

text \<open>Go's \<open>strings.Contains\<close>.\<close>

fun Contains :: "string \<Rightarrow> string \<Rightarrow> bool" where
  "Contains [] substr = (substr = [])"
| "Contains (c # cs) substr = (take (length substr) (c # cs) = substr \<or> Contains cs substr)"

text \<open>\<open>msg.Header\<close> and the fields of \<open>config.HeaderSyncConfig\<close>.\<close>

record msg_Header =
  Height :: u64
  Data :: bytes
  Hash :: bytes

record HeaderSyncConfig =
  Batch :: int
  Timeout :: int
  Buffer :: int
  ChainId :: u64

text \<open>
  The hub-chain node as the header sync sees it.  Its answers may change from one
  submission to the next (a retry only makes sense if they do), so each call carries
  the number of \<open>SubmitHeaders\<close> calls made before it.
\<close>

record sync_node =
  SyncBlockHeader :: "nat \<Rightarrow> u64 \<Rightarrow> bytes list \<Rightarrow> string \<times> ext_error option"
  Confirm :: "nat \<Rightarrow> string \<Rightarrow> ext_error option"
  GetSideChainHeader :: "nat \<Rightarrow> u64 \<Rightarrow> u64 \<Rightarrow> bytes \<times> ext_error option"

definition SubmitHeaders ::
  "sync_node \<Rightarrow> u64 \<Rightarrow> bytes list \<Rightarrow> nat \<Rightarrow> string \<times> ext_error option" where
  "SubmitHeaders nd chainId headers t =
     (case SyncBlockHeader nd t chainId headers of
        (tx, Some err) \<Rightarrow> ([], Some err)
      | (tx, None) \<Rightarrow> (tx, Confirm nd t tx))"

definition fork_error :: "ext_error \<Rightarrow> bool" where
  "fork_error err \<longleftrightarrow>
     Contains (Error err) ''parent header not exist'' \<or>
     Contains (Error err) ''missing required field''"

text \<open>
  \<open>SubmitHeadersWithLoop\<close> retries without bound; it need not return, so its value is
  an option (\<open>None\<close>: it never returns).  The result is the error it returns and the
  number of submissions made so far.
\<close>

partial_function (option) SubmitHeadersWithLoop ::
  "sync_node \<Rightarrow> u64 \<Rightarrow> bytes list \<Rightarrow> nat \<Rightarrow> (ext_error option \<times> nat) option" where
  "SubmitHeadersWithLoop nd chainId headers t =
     (case snd (SubmitHeaders nd chainId headers t) of
        None \<Rightarrow> Some (None, Suc t)
      | Some err \<Rightarrow>
          if fork_error err then Some (Some err, Suc t)
          else SubmitHeadersWithLoop nd chainId headers (Suc t))"

declare SubmitHeadersWithLoop.simps [code]

definition CheckHeaderExistence ::
  "sync_node \<Rightarrow> HeaderSyncConfig \<Rightarrow> msg_Header \<Rightarrow> nat \<Rightarrow> bool \<times> ext_error option" where
  "CheckHeaderExistence nd cfg header t =
     (case GetSideChainHeader nd t (ChainId cfg) (Height header) of
        (hash, Some err) \<Rightarrow> (False, Some err)
      | (hash, None) \<Rightarrow> (hash = Hash header, None))"

text \<open>
  What \<open>startSync\<close> does, in order: a header taken from the channel, a call of
  \<open>SubmitHeadersWithLoop\<close> (with what it returned), a single call of \<open>SubmitHeaders\<close>,
  a height sent on the reset channel (a send is taken to be received).
\<close>

datatype sync_action =
    Received msg_Header
  | CallSubmitHeadersWithLoop u64 "bytes list" "ext_error option"
  | CallSubmitHeaders u64 "bytes list"
  | ResetSend u64

text \<open>
  What the \<open>select\<close> of the batch loop sees: a header from the channel, or the timer
  firing.  The end of the list is the closing of the channel.
\<close>

datatype chan_event = Recv msg_Header | TimeAfter

text \<open>The body of the loop of single mode (\<open>s.sync.Batch == 1\<close>), for one header.\<close>

definition sync_header ::
  "sync_node \<Rightarrow> HeaderSyncConfig \<Rightarrow> msg_Header \<Rightarrow> nat \<Rightarrow> (sync_action list \<times> nat) option" where
  "sync_header nd cfg header t =
     (case CheckHeaderExistence nd cfg header t of
        (True, err) \<Rightarrow> Some ([], t)
      | (False, Some err) \<Rightarrow> Some ([ResetSend (Height header - 100)], t)
      | (False, None) \<Rightarrow>
          (case SubmitHeadersWithLoop nd (ChainId cfg) [Data header] t of
             None \<Rightarrow> None
           | Some (err, t') \<Rightarrow>
               Some (CallSubmitHeadersWithLoop (ChainId cfg) [Data header] err #
                     (if err \<noteq> None then [ResetSend (Height header - 100)] else []), t')))"

fun sync_single ::
  "sync_node \<Rightarrow> HeaderSyncConfig \<Rightarrow> msg_Header list \<Rightarrow> nat \<Rightarrow> (sync_action list \<times> nat) option" where
  "sync_single nd cfg [] t = Some ([], t)"
| "sync_single nd cfg (header # rest) t =
     (case sync_header nd cfg header t of
        None \<Rightarrow> None
      | Some (acts, t') \<Rightarrow>
          (case sync_single nd cfg rest t' of
             None \<Rightarrow> None
           | Some (acts', t'') \<Rightarrow> Some (Received header # acts @ acts', t'')))"

text \<open>The \<open>if commit\<close> block of batch mode; the caller empties the buffer afterwards.\<close>

definition commit_headers ::
  "sync_node \<Rightarrow> HeaderSyncConfig \<Rightarrow> bytes list \<Rightarrow> u64 \<Rightarrow> nat \<Rightarrow> (sync_action list \<times> nat) option" where
  "commit_headers nd cfg headers height t =
     (case SubmitHeadersWithLoop nd (ChainId cfg) headers t of
        None \<Rightarrow> None
      | Some (err, t') \<Rightarrow>
          Some (CallSubmitHeadersWithLoop (ChainId cfg) headers err #
                (if err \<noteq> None then [ResetSend (height - 100 - of_nat (length headers))] else []),
                t'))"

text \<open>
  The \<open>COMMIT\<close> loop of batch mode over the buffer \<open>headers\<close> and the variable
  \<open>height\<close>, and the flush after the loop when the channel is closed.
\<close>

fun sync_batch ::
  "sync_node \<Rightarrow> HeaderSyncConfig \<Rightarrow> chan_event list \<Rightarrow> bytes list \<Rightarrow> u64 \<Rightarrow> nat \<Rightarrow>
     (sync_action list \<times> nat) option" where
  "sync_batch nd cfg [] headers height t =
     (if length headers > 0
      then Some ([CallSubmitHeaders (ChainId cfg) headers], Suc t)
      else Some ([], t))"
| "sync_batch nd cfg (Recv header # evs) headers height t =
     (if int (length (headers @ [Data header])) \<ge> Batch cfg
      then (case commit_headers nd cfg (headers @ [Data header]) (Height header) t of
              None \<Rightarrow> None
            | Some (acts, t') \<Rightarrow>
                (case sync_batch nd cfg evs [] (Height header) t' of
                   None \<Rightarrow> None
                 | Some (acts', t'') \<Rightarrow> Some (Received header # acts @ acts', t'')))
      else (case sync_batch nd cfg evs (headers @ [Data header]) (Height header) t of
              None \<Rightarrow> None
            | Some (acts', t'') \<Rightarrow> Some (Received header # acts', t'')))"
| "sync_batch nd cfg (TimeAfter # evs) headers height t =
     (if length headers > 0
      then (case commit_headers nd cfg headers height t of
              None \<Rightarrow> None
            | Some (acts, t') \<Rightarrow>
                (case sync_batch nd cfg evs [] height t' of
                   None \<Rightarrow> None
                 | Some (acts', t'') \<Rightarrow> Some (acts @ acts', t'')))
      else sync_batch nd cfg evs headers height t)"

text \<open>Single mode ranges over the channel and has no timer.\<close>

definition startSync ::
  "sync_node \<Rightarrow> HeaderSyncConfig \<Rightarrow> chan_event list \<Rightarrow> nat \<Rightarrow> (sync_action list \<times> nat) option" where
  "startSync nd cfg ch t =
     (if Batch cfg = 1
      then sync_single nd cfg
             (concat (map (\<lambda>ev. case ev of Recv h \<Rightarrow> [h] | TimeAfter \<Rightarrow> []) ch)) t
      else sync_batch nd cfg ch [] 0 t)"

subsection \<open>What the rollback claims say, as checks of a run\<close>

text \<open>
  Single mode: after each received header comes nothing (the header exists or was
  accepted), or a failed submission followed by the height \<open>H - 100\<close> on the reset
  channel, or that height alone (the existence check failed).
\<close>

fun single_rollbacks_ok :: "sync_action list \<Rightarrow> bool" where
  "single_rollbacks_ok [] = True"
| "single_rollbacks_ok (Received h # CallSubmitHeadersWithLoop c hs (Some e) # ResetSend r # rest) =
     (hs = [Data h] \<and> r = Height h - 100 \<and> single_rollbacks_ok rest)"
| "single_rollbacks_ok (Received h # CallSubmitHeadersWithLoop c hs None # rest) =
     (hs = [Data h] \<and> single_rollbacks_ok rest)"
| "single_rollbacks_ok (Received h # ResetSend r # rest) =
     (r = Height h - 100 \<and> single_rollbacks_ok rest)"
| "single_rollbacks_ok (Received h # rest) = single_rollbacks_ok rest"
| "single_rollbacks_ok (a # rest) = False"

text \<open>
  Batch mode, with \<open>buf\<close> the headers received since the last flush: a flush submits
  exactly the buffered headers; a failed one is followed by \<open>H - 100 - k\<close> on the reset
  channel, \<open>H\<close> the height of the last buffered header and \<open>k\<close> their number; the
  single submission at closure ends the run.
\<close>

fun batch_rollbacks_ok :: "msg_Header list \<Rightarrow> sync_action list \<Rightarrow> bool" where
  "batch_rollbacks_ok buf [] = True"
| "batch_rollbacks_ok buf (Received h # rest) = batch_rollbacks_ok (buf @ [h]) rest"
| "batch_rollbacks_ok buf (CallSubmitHeadersWithLoop c hs (Some e) # ResetSend r # rest) =
     (buf \<noteq> [] \<and> hs = map Data buf \<and>
      r = Height (last buf) - 100 - of_nat (length buf) \<and> batch_rollbacks_ok [] rest)"
| "batch_rollbacks_ok buf (CallSubmitHeadersWithLoop c hs None # rest) =
     (buf \<noteq> [] \<and> hs = map Data buf \<and> batch_rollbacks_ok [] rest)"
| "batch_rollbacks_ok buf (CallSubmitHeaders c hs # rest) =
     (buf \<noteq> [] \<and> hs = map Data buf \<and> rest = [])"
| "batch_rollbacks_ok buf (a # rest) = False"

text \<open>
  A submission that ends the retry loop: accepted, or rejected with one of the two
  fork messages.  A node is \<open>fair\<close> when every batch gets such an answer at some later
  attempt.
\<close>

definition terminal :: "sync_node \<Rightarrow> u64 \<Rightarrow> bytes list \<Rightarrow> nat \<Rightarrow> bool" where
  "terminal nd chainId headers t =
     (case snd (SubmitHeaders nd chainId headers t) of None \<Rightarrow> True | Some err \<Rightarrow> fork_error err)"

definition fair :: "sync_node \<Rightarrow> u64 \<Rightarrow> bool" where
  "fair nd chainId \<longleftrightarrow> (\<forall>hs t. \<exists>n. terminal nd chainId hs (t + n))"

definition rollback :: "ext_error option \<Rightarrow> u64 \<Rightarrow> sync_action list" where
  "rollback err r = (if err \<noteq> None then [ResetSend r] else [])"

section \<open>CheckEpoch\<close>

text \<open>
  The consensus payload of a header, as \<open>vconf.VbftBlockInfo\<close> gives it to
  \<open>CheckEpoch\<close>: the peers of the new chain configuration, each with the hex string
  of its public key.  \<open>NewChainConfig\<close> is a pointer.
\<close>

record PeerConfig =
  ID :: string

record ChainConfig =
  Peers :: "PeerConfig list"

record VbftBlockInfo =
  NewChainConfig :: "ChainConfig option"

text \<open>
  The functions \<open>CheckEpoch\<close> calls that are not in poly.go: \<open>json.Unmarshal\<close> into
  the block info, \<open>keypair.DeserializePublicKey\<close> and \<open>keypair.SortPublicKeys\<close>,
  \<open>msg.EncodePubKey\<close> and \<open>msg.EncodeEthPubKey\<close>, \<open>crypto.Keccak256\<close>, and what
  \<open>WriteUint64\<close> and \<open>WriteVarBytes\<close> append to a \<open>ZeroCopySink\<close>.  They are
  parameters; \<open>'k\<close> is the type of public keys (an interface value, \<open>nil\<close> included).
\<close>

record 'k keylib =
  Unmarshal :: "bytes \<Rightarrow> VbftBlockInfo \<times> ext_error option"
  DeserializePublicKey :: "bytes \<Rightarrow> 'k \<times> ext_error option"
  SortPublicKeys :: "'k list \<Rightarrow> 'k list"
  EncodePubKey :: "'k \<Rightarrow> bytes \<times> ext_error option"
  EncodeEthPubKey :: "'k \<Rightarrow> bytes \<times> ext_error option"
  Keccak256 :: "bytes \<Rightarrow> bytes"
  WriteUint64 :: "u64 \<Rightarrow> bytes"
  WriteVarBytes :: "bytes \<Rightarrow> bytes"

definition ADDRESS_EMPTY :: bytes where
  "ADDRESS_EMPTY = replicate 20 0"

text \<open>
  The second loop of \<open>CheckEpoch\<close> over the sorted keys, with the buffers \<open>pubKeys\<close>
  and \<open>sink\<close>.  \<open>bytes[1:]\<close> and \<open>[12:]\<close> panic on a slice that is too short.
\<close>

fun encode_keys :: "'k keylib \<Rightarrow> 'k list \<Rightarrow> bytes \<Rightarrow> bytes \<Rightarrow> bytes \<times> bytes \<times> error option" where
  "encode_keys L [] pubKeys sink = (pubKeys, sink, None)"
| "encode_keys L (key # rest) pubKeys sink =
     (case EncodePubKey L key of
        (bs, Some err) \<Rightarrow> (pubKeys, sink, Some (External err))
      | (bs, None) \<Rightarrow>
          (case EncodeEthPubKey L key of
             (eb, Some err) \<Rightarrow> (pubKeys @ bs, sink, Some (External err))
           | (eb, None) \<Rightarrow>
               if length eb < 1
               then (pubKeys @ bs, sink, Some (Panic ''slice bounds out of range''))
               else if length (Keccak256 L (drop 1 eb)) < 12
               then (pubKeys @ bs, sink, Some (Panic ''slice bounds out of range''))
               else encode_keys L rest (pubKeys @ bs)
                      (sink @ WriteVarBytes L (drop 12 (Keccak256 L (drop 1 eb))))))"

text \<open>The first loop: both errors are dropped (\<open>keyStr, _ :=\<close> and \<open>key, _ :=\<close>).\<close>

definition peer_keys :: "'k keylib \<Rightarrow> ChainConfig \<Rightarrow> 'k list" where
  "peer_keys L cc =
     map (\<lambda>peer. fst (DeserializePublicKey L (fst (hex_DecodeString (ID peer))))) (Peers cc)"

text \<open>
  \<open>CheckEpoch\<close> returns \<open>(epoch, pubKeys, err)\<close>; the header is a pointer.  On every
  early return \<open>epoch\<close> still has its zero value \<open>false\<close>.
\<close>

definition CheckEpoch :: "'k keylib \<Rightarrow> Tx \<Rightarrow> Header option \<Rightarrow> bool \<times> bytes \<times> error option" where
  "CheckEpoch L tx hdr =
     (if length (DstPolyKeepers tx) = 0 then (False, [], Some KeeperNotProvided)
      else
        (case hdr of
           None \<Rightarrow> (False, [], Some (Panic ''nil pointer dereference''))
         | Some h \<Rightarrow>
             if NextBookkeeper h = ADDRESS_EMPTY then (False, [], None)
             else
               (case Unmarshal L (ConsensusPayload h) of
                  (info, Some err) \<Rightarrow> (False, [], Some (ConsensusPayloadError err))
                | (info, None) \<Rightarrow>
                    (case NewChainConfig info of
                       None \<Rightarrow> (False, [], Some (Panic ''nil pointer dereference''))
                     | Some cc \<Rightarrow>
                         (let bks = SortPublicKeys L (peer_keys L cc) in
                          case encode_keys L bks [] (WriteUint64 L (of_nat (length bks))) of
                            (pubKeys, sink, Some err) \<Rightarrow> (False, pubKeys, Some err)
                          | (pubKeys, sink, None) \<Rightarrow> (DstPolyKeepers tx \<noteq> sink, pubKeys, None))))))"

subsection \<open>The keeper encoding, as the specification words it\<close>

text \<open>
  The address-style form of one key: the trailing 20 bytes of the Keccak-256 digest of
  the uncompressed key without its first byte.
\<close>

definition keeper_address :: "'k keylib \<Rightarrow> 'k \<Rightarrow> bytes option" where
  "keeper_address L key =
     (case EncodeEthPubKey L key of
        (eb, Some err) \<Rightarrow> None
      | (eb, None) \<Rightarrow>
          if eb = [] then None
          else Some (drop (length (Keccak256 L (tl eb)) - 20) (Keccak256 L (tl eb))))"

text \<open>The header's keeper keys, decoded and sorted.\<close>

definition header_keepers :: "'k keylib \<Rightarrow> Header \<Rightarrow> 'k list option" where
  "header_keepers L h =
     (case Unmarshal L (ConsensusPayload h) of
        (info, Some err) \<Rightarrow> None
      | (info, None) \<Rightarrow>
          (case NewChainConfig info of
             None \<Rightarrow> None
           | Some cc \<Rightarrow> Some (SortPublicKeys L (peer_keys L cc))))"

text \<open>
  The canonical encoding: the number of keys, then the length-prefixed address form of
  each key in sorted order.
\<close>

definition keeper_encoding :: "'k keylib \<Rightarrow> Header \<Rightarrow> bytes option" where
  "keeper_encoding L h =
     (case header_keepers L h of
        None \<Rightarrow> None
      | Some bks \<Rightarrow>
          if list_all (\<lambda>k. keeper_address L k \<noteq> None) bks
          then Some (WriteUint64 L (of_nat (length bks)) @
                     concat (map (\<lambda>k. WriteVarBytes L (the (keeper_address L k))) bks))
          else None)"

text \<open>A key for which both encodings of the loop succeed.\<close>

definition key_encodes :: "'k keylib \<Rightarrow> 'k \<Rightarrow> bool" where
  "key_encodes L k \<longleftrightarrow> keeper_address L k \<noteq> None \<and> snd (EncodePubKey L k) = None"

section \<open>Proof retrieval\<close>

text \<open>
  The \<open>States\<close> of a notification are an \<open>interface{}\<close> decoded from JSON: strings,
  numbers (\<open>float64\<close>; every such value is a rational), booleans, null and arrays.
\<close>

datatype jvalue = JString string | JNumber rat | JBool bool | JNull | JArray "jvalue list"

record NotifyEventInfo =
  ContractAddress :: string
  States :: jvalue

record SmartContactEvent =
  TxHash :: string
  Notify :: "NotifyEventInfo list"

text \<open>
  The read calls of a hub-chain node (\<open>poly.Client\<close>), each answering with a value
  and an error.  For the two proof calls the value is the proof's \<open>AuditPath\<close>.
\<close>

record node =
  GetBlockHeightByTxHash :: "string \<Rightarrow> u32 \<times> ext_error option"
  GetHeaderByHeight :: "u32 \<Rightarrow> Header option \<times> ext_error option"
  GetMerkleProof :: "u32 \<Rightarrow> u32 \<Rightarrow> string \<times> ext_error option"
  GetCrossStatesProof :: "u32 \<Rightarrow> string \<Rightarrow> string \<times> ext_error option"
  GetSmartContractEvent :: "string \<Rightarrow> SmartContactEvent option \<times> ext_error option"
  GetSmartContractEventByBlock :: "u32 \<Rightarrow> SmartContactEvent list \<times> ext_error option"

text \<open>The calls made on the node, in order.\<close>

datatype rpc =
    RpcGetBlockHeightByTxHash string
  | RpcGetHeaderByHeight u32
  | RpcGetMerkleProof u32 u32
  | RpcGetCrossStatesProof u32 string
  | RpcGetSmartContractEvent string

text \<open>
  What is used from outside poly.go: the constant \<open>poly.CCM_ADDRESS\<close>,
  \<open>config.CONFIG.AllowMethod\<close>, the value part \<open>msg.ParseAuditPath\<close> returns,
  \<open>ToMerkleValue.Deserialization\<close> and \<open>signature.ConvertToEthCompatible\<close>.
\<close>

record ext =
  CCM_ADDRESS :: string
  AllowMethod :: "string \<Rightarrow> bool"
  ParseAuditPath :: "bytes \<Rightarrow> bytes"
  Deserialization :: "bytes \<Rightarrow> ToMerkleValue \<times> ext_error option"
  ConvertToEthCompatible :: "bytes \<Rightarrow> bytes \<times> ext_error option"

text \<open>\<open>(param, path, evt, err)\<close> as \<open>GetProof\<close> and \<open>GetPolyParams\<close> return them.\<close>

type_synonym proof_result = "ToMerkleValue option \<times> bytes \<times> SmartContactEvent option \<times> error option"

definition GetProof :: "ext \<Rightarrow> node \<Rightarrow> u32 \<Rightarrow> string \<Rightarrow> proof_result" where
  "GetProof X nd height key =
     (case GetCrossStatesProof nd height key of
        (auditPath, Some err) \<Rightarrow> (None, [], None, Some (GetCrossStatesProofError err))
      | (auditPath, None) \<Rightarrow>
          (case hex_DecodeString auditPath of
             (path, Some err) \<Rightarrow> (None, path, None, Some (HexError err))
           | (path, None) \<Rightarrow>
               (case Deserialization X (ParseAuditPath X path) of
                  (param, Some err) \<Rightarrow> (Some param, path, None, Some (DeserializationError err))
                | (param, None) \<Rightarrow> (Some param, path, None, None))))"

text \<open>
  The block \<open>if tx.PolyHeight == 0 { tx.PolyHeight, err = ...GetBlockHeightByTxHash }\<close>
  that \<open>ComposeTx\<close> and \<open>GetPolyParams\<close> both start with.
\<close>

definition resolve_PolyHeight :: "node \<Rightarrow> Tx \<Rightarrow> Tx \<times> rpc list \<times> ext_error option" where
  "resolve_PolyHeight nd tx =
     (if PolyHeight tx = 0
      then (case GetBlockHeightByTxHash nd (PolyHash tx) of
              (h, err) \<Rightarrow> (tx\<lparr>PolyHeight := h\<rparr>, [RpcGetBlockHeightByTxHash (PolyHash tx)], err))
      else (tx, [], None))"

text \<open>
  The loop of \<open>GetPolyParams\<close> over the notifications of the event.  A failed
  \<open>GetProof\<close> is logged and the loop goes on with what it returned.
\<close>

fun replay_notify ::
  "ext \<Rightarrow> node \<Rightarrow> u32 \<Rightarrow> NotifyEventInfo list \<Rightarrow> proof_result \<Rightarrow> rpc list \<Rightarrow> proof_result \<times> rpc list" where
  "replay_notify X nd height [] (param, path, evt, err) tr =
     ((param, path, evt, Some ValidToMerkleValueNotFound), tr)"
| "replay_notify X nd height (notify # rest) (param, path, evt, err) tr =
     (if ContractAddress notify = CCM_ADDRESS X
      then (case States notify of
              JArray states \<Rightarrow>
                if length states > 5
                then (if (case states ! 0 of JString m \<Rightarrow> m | _ \<Rightarrow> []) = ''makeProof''
                      then (case states ! 5 of
                              JString key \<Rightarrow>
                                (case GetProof X nd height key of
                                   (param', path', evt', Some e) \<Rightarrow>
                                     replay_notify X nd height rest (param', path', evt', Some e)
                                       (tr @ [RpcGetCrossStatesProof height key])
                                 | (param', path', evt', None) \<Rightarrow>
                                     ((param', path', evt', None),
                                      tr @ [RpcGetCrossStatesProof height key]))
                            | _ \<Rightarrow> ((param, path, evt, Some (Panic ''interface conversion'')), tr))
                      else replay_notify X nd height rest (param, path, evt, err) tr)
                else replay_notify X nd height rest (param, path, evt, err) tr
            | _ \<Rightarrow> ((param, path, evt, Some (Panic ''interface conversion'')), tr))
      else replay_notify X nd height rest (param, path, evt, err) tr)"

definition GetPolyParams :: "ext \<Rightarrow> node \<Rightarrow> Tx \<Rightarrow> Tx \<times> proof_result \<times> rpc list" where
  "GetPolyParams X nd tx =
     (if PolyHash tx = [] then (tx, (None, [], None, Some InvalidPolyHash), [])
      else
        (case resolve_PolyHeight nd tx of
           (tx1, tr1, Some err) \<Rightarrow> (tx1, (None, [], None, Some (External err)), tr1)
         | (tx1, tr1, None) \<Rightarrow>
             if PolyKey tx1 \<noteq> []
             then (tx1, GetProof X nd (PolyHeight tx1) (PolyKey tx1),
                   tr1 @ [RpcGetCrossStatesProof (PolyHeight tx1) (PolyKey tx1)])
             else
               (case GetSmartContractEvent nd (PolyHash tx1) of
                  (evt, Some err) \<Rightarrow>
                    (tx1, (None, [], evt, Some (External err)),
                     tr1 @ [RpcGetSmartContractEvent (PolyHash tx1)])
                | (None, None) \<Rightarrow>
                    (tx1, (None, [], None, Some (Panic ''nil pointer dereference'')),
                     tr1 @ [RpcGetSmartContractEvent (PolyHash tx1)])
                | (Some ev, None) \<Rightarrow>
                    (case replay_notify X nd (PolyHeight tx1) (Notify ev) (None, [], Some ev, None)
                            (tr1 @ [RpcGetSmartContractEvent (PolyHash tx1)]) of
                       (res, tr2) \<Rightarrow> (tx1, res, tr2)))))"

section \<open>Signatures\<close>

text \<open>The loop of \<open>CollectSigs\<close> over \<open>sigHeader.SigData\<close>.\<close>

fun convert_sigs :: "ext \<Rightarrow> bytes list \<Rightarrow> bytes \<Rightarrow> bytes \<times> error option" where
  "convert_sigs X [] sigs = (sigs, None)"
| "convert_sigs X (sig # rest) sigs =
     (case ConvertToEthCompatible X sig of
        (s, Some err) \<Rightarrow> (sigs, Some (ConvertToEthCompatibleError err))
      | (s, None) \<Rightarrow> convert_sigs X rest (sigs @ s))"

definition CollectSigs :: "ext \<Rightarrow> Tx \<Rightarrow> Tx \<times> error option" where
  "CollectSigs X tx =
     (let sigHeader = (if AnchorHeader tx \<noteq> None \<and> AnchorProof tx \<noteq> []
                       then AnchorHeader tx else PolyHeader tx)
      in case sigHeader of
           None \<Rightarrow> (tx, Some (Panic ''nil pointer dereference''))
         | Some h \<Rightarrow>
             (case convert_sigs X (SigData h) [] of
                (sigs, Some err) \<Rightarrow> (tx, Some err)
              | (sigs, None) \<Rightarrow> (tx\<lparr>DstSigs := sigs\<rparr>, None)))"

section \<open>ComposeTx\<close>

text \<open>
  \<open>ComposeTx\<close> in the order of the source: the anchor height (lines 205-216), the
  fetch of the anchor header and proof (218-228), the allow-list check (235-241), and
  the whole function.  It returns the Tx as it leaves it, the calls made on the node and
  the error.
\<close>

definition select_anchor :: "'k keylib \<Rightarrow> Tx \<Rightarrow> u32 \<times> error option" where
  "select_anchor L tx =
     (if PolyHeight tx < DstPolyEpochStartHeight tx
      then (DstPolyEpochStartHeight tx + 1, None)
      else (case CheckEpoch L tx (PolyHeader tx) of
              (isEpoch, pubKeys, Some err) \<Rightarrow> (0, Some err)
            | (isEpoch, pubKeys, None) \<Rightarrow> (if isEpoch then (PolyHeight tx + 2, None) else (0, None))))"

definition fetch_anchor :: "node \<Rightarrow> Tx \<Rightarrow> u32 \<Rightarrow> Tx \<times> rpc list \<times> error option" where
  "fetch_anchor nd tx anchorHeight =
     (if anchorHeight > 0
      then (case GetHeaderByHeight nd anchorHeight of
              (h, Some err) \<Rightarrow>
                (tx\<lparr>AnchorHeader := h\<rparr>, [RpcGetHeaderByHeight anchorHeight], Some (External err))
            | (h, None) \<Rightarrow>
                (case GetMerkleProof nd (PolyHeight tx + 1) anchorHeight of
                   (auditPath, Some err) \<Rightarrow>
                     (tx\<lparr>AnchorHeader := h\<rparr>,
                      [RpcGetHeaderByHeight anchorHeight,
                       RpcGetMerkleProof (PolyHeight tx + 1) anchorHeight], Some (External err))
                 | (auditPath, None) \<Rightarrow>
                     (tx\<lparr>AnchorHeader := h, AnchorProof := auditPath\<rparr>,
                      [RpcGetHeaderByHeight anchorHeight,
                       RpcGetMerkleProof (PolyHeight tx + 1) anchorHeight], None)))
      else (tx, [], None))"

definition invalid_poly_tx :: "Tx \<Rightarrow> ToMerkleValue \<Rightarrow> Tx \<times> error option" where
  "invalid_poly_tx tx mv =
     (if Param tx \<noteq> None
      then (case MakeTxParam mv of
              None \<Rightarrow> (tx, Some (Panic ''nil pointer dereference''))
            | Some p \<Rightarrow> (tx, Some (ERR_INVALID_TX (SrcChainId tx) (PolyHash tx) (Method p))))
      else (tx, Some (ERR_INVALID_TX (SrcChainId tx) (PolyHash tx) ''missing param'')))"

definition check_method :: "ext \<Rightarrow> Tx \<Rightarrow> Tx \<times> error option" where
  "check_method X tx =
     (case MerkleValue tx of
        None \<Rightarrow> (tx, Some (Panic ''nil pointer dereference''))
      | Some mv \<Rightarrow>
          (case MakeTxParam mv of
             None \<Rightarrow> invalid_poly_tx tx mv
           | Some p \<Rightarrow>
               if AllowMethod X (Method p) then invalid_poly_tx tx mv
               else CollectSigs X tx))"

definition ComposeTx :: "'k keylib \<Rightarrow> ext \<Rightarrow> node \<Rightarrow> Tx \<Rightarrow> Tx \<times> rpc list \<times> error option" where
  "ComposeTx L X nd tx =
     (if PolyHash tx = [] then (tx, [], Some InvalidPolyHash)
      else if DstPolyEpochStartHeight tx = 0 then (tx, [], Some DstHeightNotSpecified)
      else
        (case resolve_PolyHeight nd tx of
           (tx1, tr1, Some err) \<Rightarrow> (tx1, tr1, Some (External err))
         | (tx1, tr1, None) \<Rightarrow>
             (case GetHeaderByHeight nd (PolyHeight tx1 + 1) of
                (h, Some err) \<Rightarrow>
                  (tx1\<lparr>PolyHeader := h\<rparr>, tr1 @ [RpcGetHeaderByHeight (PolyHeight tx1 + 1)],
                   Some (External err))
              | (h, None) \<Rightarrow>
                  (let tx2 = tx1\<lparr>PolyHeader := h\<rparr>;
                       tr2 = tr1 @ [RpcGetHeaderByHeight (PolyHeight tx1 + 1)]
                   in case select_anchor L tx2 of
                        (anchorHeight, Some err) \<Rightarrow> (tx2, tr2, Some err)
                      | (anchorHeight, None) \<Rightarrow>
                          (case fetch_anchor nd tx2 anchorHeight of
                             (tx3, tr3, Some err) \<Rightarrow> (tx3, tr2 @ tr3, Some err)
                           | (tx3, tr3, None) \<Rightarrow>
                               (case GetPolyParams X nd tx3 of
                                  (tx4, (param, path, evt, Some err), tr4) \<Rightarrow>
                                    (tx4\<lparr>MerkleValue := param, AuditPath := path\<rparr>,
                                     tr2 @ tr3 @ tr4, Some err)
                                | (tx4, (param, path, evt, None), tr4) \<Rightarrow>
                                    (case check_method X (tx4\<lparr>MerkleValue := param, AuditPath := path\<rparr>) of
                                       (tx5, err) \<Rightarrow> (tx5, tr2 @ tr3 @ tr4, err))))))))"

subsection \<open>The anchor rule, as the specification words it\<close>

text \<open>The heights of the headers, and the pairs of heights of the Merkle proofs, fetched.\<close>

fun fetched_headers :: "rpc list \<Rightarrow> u32 list" where
  "fetched_headers [] = []"
| "fetched_headers (RpcGetHeaderByHeight h # tr) = h # fetched_headers tr"
| "fetched_headers (c # tr) = fetched_headers tr"

fun fetched_merkle :: "rpc list \<Rightarrow> (u32 \<times> u32) list" where
  "fetched_merkle [] = []"
| "fetched_merkle (RpcGetMerkleProof a b # tr) = (a, b) # fetched_merkle tr"
| "fetched_merkle (c # tr) = fetched_merkle tr"

text \<open>The anchor height the rule selects, if any; the sums are those of \<open>uint32\<close>.\<close>

definition anchor_rule :: "u32 \<Rightarrow> u32 \<Rightarrow> bool \<Rightarrow> u32 option" where
  "anchor_rule polyHeight dstStart rotation =
     (if polyHeight < dstStart then Some (dstStart + 1)
      else if rotation then Some (polyHeight + 2)
      else None)"

text \<open>
  What a composition with the selected anchor must have fetched and stored: without an
  anchor, or with one that wrapped to 0, only the header at \<open>polyHeight + 1\<close> and the
  anchor fields of the Tx untouched; with one, that header and the anchor header, the
  anchor proof once the header fetch succeeded, and both stored as far as they came.
\<close>

definition anchor_outcome ::
  "node \<Rightarrow> Tx \<Rightarrow> u32 \<Rightarrow> u32 option \<Rightarrow> Tx \<Rightarrow> rpc list \<Rightarrow> bool" where
  "anchor_outcome nd tx polyHeight anchor tx' tr =
     (case anchor of
        None \<Rightarrow>
          fetched_headers tr = [polyHeight + 1] \<and> fetched_merkle tr = [] \<and>
          AnchorHeader tx' = AnchorHeader tx \<and> AnchorProof tx' = AnchorProof tx
      | Some a \<Rightarrow>
          if a = 0
          then fetched_headers tr = [polyHeight + 1] \<and> fetched_merkle tr = [] \<and>
               AnchorHeader tx' = AnchorHeader tx \<and> AnchorProof tx' = AnchorProof tx
          else fetched_headers tr = [polyHeight + 1, a] \<and>
               fetched_merkle tr =
                 (if snd (GetHeaderByHeight nd a) = None then [(polyHeight + 1, a)] else []) \<and>
               AnchorHeader tx' = fst (GetHeaderByHeight nd a) \<and>
               AnchorProof tx' =
                 (if snd (GetHeaderByHeight nd a) = None \<and>
                     snd (GetMerkleProof nd (polyHeight + 1) a) = None
                  then fst (GetMerkleProof nd (polyHeight + 1) a) else AnchorProof tx))"

section \<open>The submission worker\<close>

text \<open>
  A Go \<open>select\<close> with one receive case: the case runs when its channel is ready;
  otherwise the \<open>default\<close> branch runs if there is one, and without one the goroutine
  blocks until the channel is ready.
\<close>

datatype select_result = CaseReady | DefaultCase | Blocked

definition go_select :: "bool \<Rightarrow> bool \<Rightarrow> select_result" where
  "go_select has_default ready =
     (if ready then CaseReady else if has_default then DefaultCase else Blocked)"

text \<open>The queue \<open>bus.TxBus\<close> over a state \<open>'b\<close>; the result of \<open>Push\<close> is dropped.\<close>

record 'b TxBus =
  Pop :: "'b \<Rightarrow> (Tx option \<times> ext_error option) \<times> 'b"
  Push :: "'b \<Rightarrow> Tx \<Rightarrow> 'b"

datatype run_action = PopCall | SleepSecond | SubmitCall Tx | PushCall Tx

record 'b worker =
  bus :: 'b
  now :: nat
  actions :: "run_action list"

text \<open>
  \<open>run\<close>, for one worker.  \<open>Done t\<close> says whether the done-channel is closed at time
  \<open>t\<close>; every wait and every turn of the loop takes one unit of time, and \<open>fuel\<close>
  bounds the units looked at (\<open>None\<close>: the worker has not returned within them).  The
  \<open>select\<close> of the source has no \<open>default\<close>.
\<close>

fun run ::
  "nat \<Rightarrow> Submitter \<Rightarrow> import_rpc \<Rightarrow> 'b TxBus \<Rightarrow> (nat \<Rightarrow> bool) \<Rightarrow> 'b worker \<Rightarrow> 'b worker option" where
  "run 0 s imp B Done w = None"
| "run (Suc fuel) s imp B Done w =
     (case go_select False (Done (now w)) of
        CaseReady \<Rightarrow> Some w
      | Blocked \<Rightarrow> run fuel s imp B Done (w\<lparr>now := Suc (now w)\<rparr>)
      | DefaultCase \<Rightarrow>
          (case Pop B (bus w) of
             ((tx, Some err), bus') \<Rightarrow>
               run fuel s imp B Done
                 (w\<lparr>bus := bus', now := Suc (now w), actions := actions w @ [PopCall]\<rparr>)
           | ((None, None), bus') \<Rightarrow>
               run fuel s imp B Done
                 (w\<lparr>bus := bus', now := Suc (now w), actions := actions w @ [PopCall, SleepSecond]\<rparr>)
           | ((Some tx, None), bus') \<Rightarrow>
               (case submit s imp tx of
                  (tx', None) \<Rightarrow>
                    run fuel s imp B Done
                      (w\<lparr>bus := bus', now := Suc (now w),
                         actions := actions w @ [PopCall, SubmitCall tx]\<rparr>)
                | (tx', Some err) \<Rightarrow>
                    run fuel s imp B Done
                      (w\<lparr>bus := Push B bus' (tx'\<lparr>Attempts := Attempts tx' + 1\<rparr>),
                         now := Suc (now w),
                         actions := actions w @
                           [PopCall, SubmitCall tx, PushCall (tx'\<lparr>Attempts := Attempts tx' + 1\<rparr>)]\<rparr>))))"

section \<open>The Listener\<close>

text \<open>
  What the Listener uses from \<open>bridge-common\<close>: the chain ids \<open>base.NEO\<close>, \<open>base.NEO3\<close>
  and \<open>base.ONT\<close>, \<open>util.ReverseHex\<close> and \<open>util.LowerHex\<close>; and the value of a
  conversion from \<open>float64\<close> that the target type cannot represent, which Go leaves
  to the implementation.
\<close>

record base =
  NEO :: u64
  NEO3 :: u64
  ONT :: u64
  ReverseHex :: "string \<Rightarrow> string"
  LowerHex :: "string \<Rightarrow> string"
  uint64_unrepresentable :: "rat \<Rightarrow> u64"
  uint32_unrepresentable :: "rat \<Rightarrow> u32"

text \<open>\<open>uint64(f)\<close> and \<open>uint32(f)\<close> of a \<open>float64\<close>: the fraction is discarded.\<close>

definition float64_to_uint64 :: "base \<Rightarrow> rat \<Rightarrow> u64" where
  "float64_to_uint64 B f =
     (if 0 \<le> f \<and> f < 2 ^ 64 then word_of_int \<lfloor>f\<rfloor>
      else if - 1 < f \<and> f < 0 then 0
      else uint64_unrepresentable B f)"

definition float64_to_uint32 :: "base \<Rightarrow> rat \<Rightarrow> u32" where
  "float64_to_uint32 B f =
     (if 0 \<le> f \<and> f < 2 ^ 32 then word_of_int \<lfloor>f\<rfloor>
      else if - 1 < f \<and> f < 0 then 0
      else uint32_unrepresentable B f)"

datatype log_entry = InvalidDstChainId string

datatype notify_result = Skipped | Logged log_entry | Made Tx | Panicked

text \<open>The \<open>switch tx.SrcChainId\<close> of \<open>Scan\<close> and \<open>scanTx\<close>.\<close>

definition switch_SrcChainId :: "base \<Rightarrow> Tx \<Rightarrow> Tx" where
  "switch_SrcChainId B tx =
     (if SrcChainId tx = NEO B \<or> SrcChainId tx = NEO3 B \<or> SrcChainId tx = ONT B
      then tx\<lparr>TxId := ReverseHex B (TxId tx)\<rparr> else tx)"

text \<open>
  The body of the inner loop of \<open>Scan\<close> for one notification: skipped, logged and
  skipped, a Tx made, or a panic of a type assertion.
\<close>

definition scan_notify :: "ext \<Rightarrow> base \<Rightarrow> u64 \<Rightarrow> string \<Rightarrow> NotifyEventInfo \<Rightarrow> notify_result" where
  "scan_notify X B height txHash notify =
     (if ContractAddress notify = CCM_ADDRESS X
      then (case States notify of
              JArray states \<Rightarrow>
                if length states < 6 then Skipped
                else if (case states ! 0 of JString m \<Rightarrow> m | _ \<Rightarrow> []) \<noteq> ''makeProof'' then Skipped
                else (case states ! 2 of
                        JNumber d \<Rightarrow>
                          if float64_to_uint64 B d = 0 then Logged (InvalidDstChainId txHash)
                          else (case states ! 5 of
                                  JString key \<Rightarrow>
                                    (case states ! 3 of
                                       JString txid \<Rightarrow>
                                         (case states ! 1 of
                                            JNumber sc \<Rightarrow>
                                              Made (switch_SrcChainId B
                                                (new_Tx\<lparr>DstChainId := float64_to_uint64 B d,
                                                   PolyKey := key, PolyHeight := ucast height,
                                                   PolyHash := txHash, TxType := POLY, TxId := txid,
                                                   SrcChainId := float64_to_uint64 B sc\<rparr>))
                                          | _ \<Rightarrow> Panicked)
                                     | _ \<Rightarrow> Panicked)
                                | _ \<Rightarrow> Panicked)
                      | _ \<Rightarrow> Panicked)
            | _ \<Rightarrow> Panicked)
      else Skipped)"

fun scan_notifies ::
  "ext \<Rightarrow> base \<Rightarrow> u64 \<Rightarrow> string \<Rightarrow> NotifyEventInfo list \<Rightarrow> Tx list \<times> log_entry list \<Rightarrow>
     error + Tx list \<times> log_entry list" where
  "scan_notifies X B height txHash [] acc = Inr acc"
| "scan_notifies X B height txHash (notify # rest) (txs, logs) =
     (case scan_notify X B height txHash notify of
        Skipped \<Rightarrow> scan_notifies X B height txHash rest (txs, logs)
      | Logged l \<Rightarrow> scan_notifies X B height txHash rest (txs, logs @ [l])
      | Made tx \<Rightarrow> scan_notifies X B height txHash rest (txs @ [tx], logs)
      | Panicked \<Rightarrow> Inl (Panic ''interface conversion''))"

fun scan_events ::
  "ext \<Rightarrow> base \<Rightarrow> u64 \<Rightarrow> SmartContactEvent list \<Rightarrow> Tx list \<times> log_entry list \<Rightarrow>
     error + Tx list \<times> log_entry list" where
  "scan_events X B height [] acc = Inr acc"
| "scan_events X B height (event # rest) acc =
     (case scan_notifies X B height (TxHash event) (Notify event) acc of
        Inl e \<Rightarrow> Inl e
      | Inr acc' \<Rightarrow> scan_events X B height rest acc')"

definition Scan :: "ext \<Rightarrow> base \<Rightarrow> node \<Rightarrow> u64 \<Rightarrow> error + Tx list \<times> log_entry list" where
  "Scan X B nd height =
     (case GetSmartContractEventByBlock nd (ucast height) of
        (events, Some err) \<Rightarrow> Inl (External err)
      | (events, None) \<Rightarrow> scan_events X B height events ([], []))"

text \<open>
  \<open>scanTx\<close>: as \<open>Scan\<close> for one event, with the height taken from argument 5, and
  returning at the first Tx made.
\<close>

definition scanTx_notify :: "ext \<Rightarrow> base \<Rightarrow> string \<Rightarrow> NotifyEventInfo \<Rightarrow> notify_result" where
  "scanTx_notify X B txHash notify =
     (if ContractAddress notify = CCM_ADDRESS X
      then (case States notify of
              JArray states \<Rightarrow>
                if length states < 6 then Skipped
                else if (case states ! 0 of JString m \<Rightarrow> m | _ \<Rightarrow> []) \<noteq> ''makeProof'' then Skipped
                else (case states ! 2 of
                        JNumber d \<Rightarrow>
                          if float64_to_uint64 B d = 0 then Logged (InvalidDstChainId txHash)
                          else (case states ! 5 of
                                  JString key \<Rightarrow>
                                    (case states ! 4 of
                                       JNumber ph \<Rightarrow>
                                         (case states ! 3 of
                                            JString txid \<Rightarrow>
                                              (case states ! 1 of
                                                 JNumber sc \<Rightarrow>
                                                   Made (switch_SrcChainId B
                                                     (new_Tx\<lparr>DstChainId := float64_to_uint64 B d,
                                                        PolyKey := key,
                                                        PolyHeight := float64_to_uint32 B ph,
                                                        PolyHash := txHash, TxType := POLY,
                                                        TxId := txid,
                                                        SrcChainId := float64_to_uint64 B sc\<rparr>))
                                               | _ \<Rightarrow> Panicked)
                                          | _ \<Rightarrow> Panicked)
                                     | _ \<Rightarrow> Panicked)
                                | _ \<Rightarrow> Panicked)
                      | _ \<Rightarrow> Panicked)
            | _ \<Rightarrow> Panicked)
      else Skipped)"

fun scanTx_notifies ::
  "ext \<Rightarrow> base \<Rightarrow> string \<Rightarrow> string \<Rightarrow> NotifyEventInfo list \<Rightarrow> Tx option \<times> error option" where
  "scanTx_notifies X B hash txHash [] = (None, Some (HasNoEvent hash))"
| "scanTx_notifies X B hash txHash (notify # rest) =
     (case scanTx_notify X B txHash notify of
        Skipped \<Rightarrow> scanTx_notifies X B hash txHash rest
      | Logged l \<Rightarrow> scanTx_notifies X B hash txHash rest
      | Made tx \<Rightarrow> (Some tx, None)
      | Panicked \<Rightarrow> (None, Some (Panic ''interface conversion'')))"

definition scanTx :: "ext \<Rightarrow> base \<Rightarrow> node \<Rightarrow> string \<Rightarrow> Tx option \<times> error option" where
  "scanTx X B nd hash =
     (case GetSmartContractEvent nd hash of
        (event, Some err) \<Rightarrow> (None, Some (External err))
      | (None, None) \<Rightarrow> (None, Some (Panic ''nil pointer dereference''))
      | (Some event, None) \<Rightarrow> scanTx_notifies X B hash (TxHash event) (Notify event))"

text \<open>
  \<open>validate\<close> calls \<open>sub.getProof(node, height, key)\<close>, which poly.go does not define
  (it has \<open>GetProof\<close> only); it is a parameter, returning the value and the error.
\<close>

type_synonym getProof_fn = "node \<Rightarrow> u32 \<Rightarrow> string \<Rightarrow> ToMerkleValue option \<times> error option"

definition validate :: "ext \<Rightarrow> base \<Rightarrow> getProof_fn \<Rightarrow> node \<Rightarrow> Tx \<Rightarrow> error option" where
  "validate X B getProof nd tx =
     (case scanTx X B nd (PolyHash tx) of
        (t, Some err) \<Rightarrow> Some err
      | (None, None) \<Rightarrow> Some ERR_TX_PROOF_MISSING
      | (Some t, None) \<Rightarrow>
          if SrcChainId tx \<noteq> SrcChainId t
          then Some (ERR_TX_VOILATION_SrcChainID (SrcChainId tx) (SrcChainId t))
          else if DstChainId tx \<noteq> DstChainId t
          then Some (ERR_TX_VOILATION_DstChainID (DstChainId tx) (DstChainId t))
          else (case getProof nd (PolyHeight t) (PolyKey t) of
                  (v, Some err) \<Rightarrow> Some err
                | (None, None) \<Rightarrow> Some ERR_TX_PROOF_MISSING
                | (Some v, None) \<Rightarrow>
                    (case MakeTxParam v of
                       None \<Rightarrow> Some (Panic ''nil pointer dereference'')
                     | Some p \<Rightarrow>
                         (let a = LowerHex B (hex_EncodeToString (ToContractAddress p));
                              b = LowerHex B (DstProxy tx)
                          in if a \<noteq> b then Some (ERR_TX_VOILATION_ToContract b a) else None))))"

text \<open>A run-time panic is not an error value: it leaves every caller.\<close>

definition is_Panic :: "error \<Rightarrow> bool" where
  "is_Panic e = (case e of Panic m \<Rightarrow> True | _ \<Rightarrow> False)"

text \<open>
  The loop of \<open>Validate\<close> over \<open>AllNodes()\<close>, with \<open>err\<close> the named result: a node
  that validates ends the loop with a bare \<open>return\<close>, a node that returns an error is
  passed over, and a panic of \<open>validate\<close> leaves \<open>Validate\<close>.
\<close>

fun validate_others :: "ext \<Rightarrow> base \<Rightarrow> getProof_fn \<Rightarrow> node list \<Rightarrow> Tx \<Rightarrow> error option \<Rightarrow> error option" where
  "validate_others X B getProof [] tx err = err"
| "validate_others X B getProof (nd # rest) tx err =
     (case validate X B getProof nd tx of
        None \<Rightarrow> err
      | Some e \<Rightarrow>
          if is_Panic e then Some e
          else validate_others X B getProof rest tx err)"

definition Validate :: "ext \<Rightarrow> base \<Rightarrow> getProof_fn \<Rightarrow> node \<Rightarrow> node list \<Rightarrow> Tx \<Rightarrow> error option" where
  "Validate X B getProof primary allNodes tx =
     (case validate X B getProof primary tx of
        None \<Rightarrow> None
      | Some err \<Rightarrow>
          if is_Panic err then Some err
          else validate_others X B getProof allNodes tx (Some err))"

text \<open>The errors that wrap \<open>msg.ERR_TX_VOILATION\<close>.\<close>

definition is_violation :: "error \<Rightarrow> bool" where
  "is_violation e =
     (case e of
        ERR_TX_VOILATION_SrcChainID a b \<Rightarrow> True
      | ERR_TX_VOILATION_DstChainID a b \<Rightarrow> True
      | ERR_TX_VOILATION_ToContract a b \<Rightarrow> True
      | _ \<Rightarrow> False)"

subsection \<open>The scanned notifications, as the specification words them\<close>

text \<open>
  A cross-chain-manager notification whose first argument is \<open>"makeProof"\<close> and which
  has at least six arguments; one whose arguments have the JSON types the code asserts;
  the Tx the specification says is made of it; and the log entry for a zero destination
  chain id.
\<close>

fun is_JNumber :: "jvalue \<Rightarrow> bool" where
  "is_JNumber (JNumber f) = True"
| "is_JNumber v = False"

fun is_JString :: "jvalue \<Rightarrow> bool" where
  "is_JString (JString s) = True"
| "is_JString v = False"

definition is_makeProof :: "ext \<Rightarrow> NotifyEventInfo \<Rightarrow> bool" where
  "is_makeProof X n \<longleftrightarrow>
     ContractAddress n = CCM_ADDRESS X \<and>
     (case States n of
        JArray states \<Rightarrow> 6 \<le> length states \<and> states ! 0 = JString ''makeProof''
      | _ \<Rightarrow> False)"

definition well_typed :: "ext \<Rightarrow> NotifyEventInfo \<Rightarrow> bool" where
  "well_typed X n \<longleftrightarrow>
     (if ContractAddress n = CCM_ADDRESS X
      then (case States n of
              JArray states \<Rightarrow>
                if 6 \<le> length states \<and> states ! 0 = JString ''makeProof''
                then is_JNumber (states ! 1) \<and> is_JNumber (states ! 2) \<and>
                     is_JString (states ! 3) \<and> is_JString (states ! 5)
                else True
            | _ \<Rightarrow> False)
      else True)"

definition notification_tx :: "ext \<Rightarrow> base \<Rightarrow> u64 \<Rightarrow> string \<Rightarrow> NotifyEventInfo \<Rightarrow> Tx option" where
  "notification_tx X B height txHash n =
     (if is_makeProof X n
      then (case States n of
              JArray (m # JNumber src # JNumber dst # JString txid # h # JString key # rest) \<Rightarrow>
                if float64_to_uint64 B dst = 0 then None
                else Some (new_Tx\<lparr>
                       TxType := POLY,
                       TxId := (if float64_to_uint64 B src = NEO B \<or>
                                   float64_to_uint64 B src = NEO3 B \<or>
                                   float64_to_uint64 B src = ONT B
                                then ReverseHex B txid else txid),
                       SrcChainId := float64_to_uint64 B src,
                       PolyHash := txHash,
                       PolyHeight := ucast height,
                       PolyKey := key,
                       DstChainId := float64_to_uint64 B dst\<rparr>)
            | _ \<Rightarrow> None)
      else None)"

definition notification_log :: "ext \<Rightarrow> base \<Rightarrow> string \<Rightarrow> NotifyEventInfo \<Rightarrow> log_entry option" where
  "notification_log X B txHash n =
     (if is_makeProof X n
      then (case States n of
              JArray (m # src # JNumber dst # rest) \<Rightarrow>
                if float64_to_uint64 B dst = 0 then Some (InvalidDstChainId txHash) else None
            | _ \<Rightarrow> None)
      else None)"

section \<open>Concrete inputs\<close>

text \<open>Inputs at which the theorems below are instantiated.\<close>

definition s0 :: Submitter where
  "s0 = \<lparr> name = ''poly'', signer_address = ''0a0b'' \<rparr>"

definition tx0 :: Tx where
  "tx0 = new_Tx\<lparr> SrcHeight := 7, SrcProof := ''ff'', SrcEvent := ''ab01'', SrcChainId := 2,
     SrcHash := ''h1'', SrcProofHeight := 8 \<rparr>"

definition imp0 :: import_rpc where
  "imp0 = (\<lambda>c v h p a x. (''beef'', None))"

definition imp_fail :: import_rpc where
  "imp_fail = (\<lambda>c v h p a x. ([], Some (ExtError ''rejected'')))"

text \<open>
  A node that accepts every submission and one that answers each with the fork
  message; neither has any side-chain header stored.
\<close>

definition nd_ok :: sync_node where
  "nd_ok = \<lparr> SyncBlockHeader = (\<lambda>t c hs. (''aa'', None)), Confirm = (\<lambda>t h. None),
             GetSideChainHeader = (\<lambda>t c h. ([], None)) \<rparr>"

definition nd_fork :: sync_node where
  "nd_fork = \<lparr> SyncBlockHeader = (\<lambda>t c hs. ([], Some (ExtError ''parent header not exist''))),
               Confirm = (\<lambda>t h. None),
               GetSideChainHeader = (\<lambda>t c h. ([], None)) \<rparr>"

definition header_at :: "nat \<Rightarrow> msg_Header" where
  "header_at n = \<lparr> Height = of_nat n, Data = [of_nat n], Hash = [1] \<rparr>"

definition cfg1 :: HeaderSyncConfig where
  "cfg1 = \<lparr> Batch = 1, Timeout = 1, Buffer = 2, ChainId = 2 \<rparr>"

definition cfg4 :: HeaderSyncConfig where
  "cfg4 = \<lparr> Batch = 4, Timeout = 1, Buffer = 8, ChainId = 2 \<rparr>"

text \<open>
  A key library over numbered keys with a 32-byte digest that pads on the left, a node,
  the external functions, and transactions and notifications for them.
\<close>

definition toy_keys :: "nat keylib" where
  "toy_keys = \<lparr>
     Unmarshal = (\<lambda>payload.
        if payload = [1]
        then (\<lparr>NewChainConfig = Some \<lparr>Peers = [\<lparr>ID = ''02''\<rparr>, \<lparr>ID = ''01''\<rparr>]\<rparr>\<rparr>, None)
        else (\<lparr>NewChainConfig = None\<rparr>, Some (ExtError ''invalid character''))),
     DeserializePublicKey = (\<lambda>b. (case b of [] \<Rightarrow> 0 | x # r \<Rightarrow> unat x, None)),
     SortPublicKeys = sort,
     EncodePubKey = (\<lambda>k. ([of_nat k], None)),
     EncodeEthPubKey = (\<lambda>k. ([4, of_nat k], None)),
     Keccak256 = (\<lambda>x. replicate (32 - length x) 0 @ take 32 x),
     WriteUint64 = (\<lambda>n. map (\<lambda>i. ucast (drop_bit (8 * i) n)) [0..<8]),
     WriteVarBytes = (\<lambda>b. of_nat (length b) # b) \<rparr>"

definition hdr_quiet :: Header where
  "hdr_quiet = \<lparr> SigData = [[1], [2]], NextBookkeeper = ADDRESS_EMPTY, ConsensusPayload = [] \<rparr>"

definition hdr_rot :: Header where
  "hdr_rot = \<lparr> SigData = [[3]], NextBookkeeper = replicate 20 7, ConsensusPayload = [1] \<rparr>"

definition tx_c :: Tx where
  "tx_c = new_Tx\<lparr> PolyHash := ''ab'', PolyHeight := 10, PolyKey := ''k1'',
     DstPolyEpochStartHeight := 5, DstPolyKeepers := [9] \<rparr>"

definition ext_c :: ext where
  "ext_c = \<lparr> CCM_ADDRESS = ''ccm'',
     AllowMethod = (\<lambda>m. m = ''unlock''),
     ParseAuditPath = (\<lambda>p. p),
     Deserialization = (\<lambda>v. (\<lparr>MakeTxParam = Some \<lparr>Method = (if v = [1] then ''unlock'' else ''evil''),
                                   ToContractAddress = [171, 205]\<rparr>\<rparr>, None)),
     ConvertToEthCompatible = (\<lambda>s. (s, None)) \<rparr>"

definition nd_c :: node where
  "nd_c = \<lparr> GetBlockHeightByTxHash = (\<lambda>h. (10, None)),
     GetHeaderByHeight = (\<lambda>h. (Some (if h = 21 then hdr_rot else hdr_quiet), None)),
     GetMerkleProof = (\<lambda>a b. (''aa'', None)),
     GetCrossStatesProof = (\<lambda>h k. (if k = ''k1'' then ''01'' else ''02'', None)),
     GetSmartContractEvent = (\<lambda>h. (None, None)),
     GetSmartContractEventByBlock = (\<lambda>h. ([], None)) \<rparr>"

definition list_bus :: "Tx list TxBus" where
  "list_bus = \<lparr> Pop = (\<lambda>q. case q of [] \<Rightarrow> ((None, None), []) | tx # r \<Rightarrow> ((Some tx, None), r)),
                Push = (\<lambda>q tx. q @ [tx]) \<rparr>"

definition base_c :: base where
  "base_c = \<lparr> NEO = 4, NEO3 = 14, ONT = 3, ReverseHex = rev, LowerHex = (\<lambda>s. s),
     uint64_unrepresentable = (\<lambda>f. 0), uint32_unrepresentable = (\<lambda>f. 0) \<rparr>"

definition makeProof_args :: "jvalue list" where
  "makeProof_args = [JString ''makeProof'', JNumber 2, JNumber 3, JString ''tx123'', JNumber 1000, JString ''stateKey1'']"

definition notify_ok :: NotifyEventInfo where
  "notify_ok = \<lparr>ContractAddress = ''ccm'', States = JArray makeProof_args\<rparr>"

definition event_ok :: SmartContactEvent where
  "event_ok = \<lparr>TxHash = ''ph1'', Notify = [notify_ok]\<rparr>"

definition nd_scan :: node where
  "nd_scan = nd_c\<lparr>
     GetSmartContractEventByBlock := (\<lambda>h. if h = 1000 then ([event_ok], None) else ([], None)),
     GetSmartContractEvent :=
       (\<lambda>h. if h = ''ph1'' then (Some event_ok, None)
            else (Some \<lparr>TxHash = h, Notify = []\<rparr>, None)) \<rparr>"

definition notify_bad :: NotifyEventInfo where
  "notify_bad = \<lparr>ContractAddress = ''ccm'',
     States = JArray [JString ''makeProof'', JNumber 2, JString ''3'', JString ''tx123'',
                      JNumber 1000, JString ''stateKey1'']\<rparr>"

definition nd_bad :: node where
  "nd_bad = nd_c\<lparr>
     GetSmartContractEventByBlock := (\<lambda>h. ([\<lparr>TxHash = ''ph1'', Notify = [notify_bad]\<rparr>], None)) \<rparr>"

definition tx_scanned :: Tx where
  "tx_scanned = new_Tx\<lparr>TxType := POLY, TxId := ''tx123'', SrcChainId := 2, PolyHash := ''ph1'',
     PolyHeight := 1000, PolyKey := ''stateKey1'', DstChainId := 3\<rparr>"

definition gp_c :: getProof_fn where
  "gp_c = (\<lambda>nd height key. case GetProof ext_c nd height key of (v, path, evt, err) \<Rightarrow> (v, err))"

definition tx_v :: Tx where
  "tx_v = new_Tx\<lparr>PolyHash := ''ph1'', SrcChainId := 2, DstChainId := 3, DstProxy := ''abcd''\<rparr>"

definition tx_far :: Tx where
  "tx_far = tx_c\<lparr>DstPolyEpochStartHeight := 42\<rparr>"

definition tx_rot :: Tx where
  "tx_rot = tx_c\<lparr>PolyHeight := 20\<rparr>"

definition tx_max :: Tx where
  "tx_max = tx_c\<lparr>DstPolyEpochStartHeight := 4294967295\<rparr>"

definition tx_evil :: Tx where
  "tx_evil = tx_c\<lparr>PolyKey := ''k2''\<rparr>"

section \<open>Properties\<close>

subsection \<open>Hex decoding at the concrete inputs\<close>

lemma hex_ab01: "hex_DecodeString ''ab01'' = ([171, 1], None)"
  by (simp add: hex_DecodeString_def fromHexChar_def)

lemma hex_ff: "hex_DecodeString ''ff'' = ([255], None)"
  by (simp add: hex_DecodeString_def fromHexChar_def)

lemma hex_abcg: "hex_DecodeString ''abcg'' = ([171], Some (InvalidByteError CHR ''g''))"
  by (simp add: hex_DecodeString_def fromHexChar_def)

lemma hex_f: "hex_DecodeString ''f'' = ([], Some ErrLength)"
  by (simp add: hex_DecodeString_def fromHexChar_def)

subsection \<open>submit\<close>

lemma tx0_present:
  "\<not> missing_src_fields tx0"
  "\<not> missing_src_fields (tx0\<lparr>SrcEvent := ''abcg''\<rparr>)"
  "\<not> missing_src_fields (tx0\<lparr>SrcProof := ''f''\<rparr>)"
  "missing_src_fields (tx0\<lparr>SrcHash := []\<rparr>)"
  by (simp_all add: missing_src_fields_def tx0_def new_Tx_def)

text \<open>
  C7.  \<open>submit\<close> rejects a Tx with the missing-fields error when one of srcHeight,
  srcProof, srcEvent, srcChainId, srcHash, srcProofHeight is zero or empty.  When all
  are present, a source event that is not well-formed hex fails with the error that
  names the source value and carries the submitter's name, the decoder's error and the
  offending string; a well-formed event with a malformed source proof fails with the
  error that names the source proof in the same way.  \<open>submit\<close> returns no error exactly
  when the fields are present, both strings decode and the node's import call returns
  no error; the Tx then carries the hash the import call returned and is otherwise
  unchanged.
\<close>

theorem submit_field_errors_and_success:
  "(missing_src_fields tx \<longrightarrow> submit s imp tx = (tx, Some InvalidSrcTx)) \<and>
   (\<not> missing_src_fields tx \<longrightarrow>
      (\<forall>e. snd (hex_DecodeString (SrcEvent tx)) = Some e \<longrightarrow>
           submit s imp tx = (tx, Some (DecodeSrcValueError (name s) e (SrcEvent tx)))) \<and>
      (\<forall>e. snd (hex_DecodeString (SrcEvent tx)) = None \<and>
           snd (hex_DecodeString (SrcProof tx)) = Some e \<longrightarrow>
           submit s imp tx = (tx, Some (DecodeSrcProofError (name s) e (SrcProof tx))))) \<and>
   (snd (submit s imp tx) = None \<longleftrightarrow>
      \<not> missing_src_fields tx \<and>
      snd (hex_DecodeString (SrcEvent tx)) = None \<and>
      snd (hex_DecodeString (SrcProof tx)) = None \<and>
      snd (imp (SrcChainId tx) (fst (hex_DecodeString (SrcEvent tx)))
               (ucast (SrcProofHeight tx)) (fst (hex_DecodeString (SrcProof tx)))
               (Hex2Bytes (signer_address s)) []) = None) \<and>
   (snd (submit s imp tx) = None \<longrightarrow>
      fst (submit s imp tx) =
        tx\<lparr>PolyHash := fst (imp (SrcChainId tx) (fst (hex_DecodeString (SrcEvent tx)))
               (ucast (SrcProofHeight tx)) (fst (hex_DecodeString (SrcProof tx)))
               (Hex2Bytes (signer_address s)) [])\<rparr>)"
  by (auto simp: submit_def split: prod.splits option.splits)

theorem submit_field_errors_and_success_witness:
  "submit s0 imp0 tx0 = (tx0\<lparr>PolyHash := ''beef''\<rparr>, None) \<and>
   submit s0 imp_fail tx0 = (tx0, Some (ImportFailed (ExtError ''rejected''))) \<and>
   submit s0 imp0 (tx0\<lparr>SrcEvent := ''abcg''\<rparr>) =
     (tx0\<lparr>SrcEvent := ''abcg''\<rparr>,
      Some (DecodeSrcValueError ''poly'' (InvalidByteError CHR ''g'') ''abcg'')) \<and>
   submit s0 imp0 (tx0\<lparr>SrcProof := ''f''\<rparr>) =
     (tx0\<lparr>SrcProof := ''f''\<rparr>, Some (DecodeSrcProofError ''poly'' ErrLength ''f'')) \<and>
   submit s0 imp0 (tx0\<lparr>SrcHash := []\<rparr>) = (tx0\<lparr>SrcHash := []\<rparr>, Some InvalidSrcTx)"
proof -
  have ev: "SrcEvent tx0 = ''ab01''" and pr: "SrcProof tx0 = ''ff''"
    by (simp_all add: tx0_def new_Tx_def)
  have a: "submit s0 imp0 tx0 = (tx0\<lparr>PolyHash := ''beef''\<rparr>, None)"
    using submit_field_errors_and_success [of tx0 s0 imp0] tx0_present(1)
    by (simp add: ev pr hex_ab01 hex_ff imp0_def prod_eq_iff)
  have b: "submit s0 imp_fail tx0 = (tx0, Some (ImportFailed (ExtError ''rejected'')))"
    using tx0_present(1)
    by (simp add: submit_def ev pr hex_ab01 hex_ff imp_fail_def)
  have c: "submit s0 imp0 (tx0\<lparr>SrcEvent := ''abcg''\<rparr>) =
     (tx0\<lparr>SrcEvent := ''abcg''\<rparr>,
      Some (DecodeSrcValueError ''poly'' (InvalidByteError CHR ''g'') ''abcg''))"
    using submit_field_errors_and_success [of "tx0\<lparr>SrcEvent := ''abcg''\<rparr>" s0 imp0]
      tx0_present(2)
    by (simp add: hex_abcg s0_def)
  have d: "submit s0 imp0 (tx0\<lparr>SrcProof := ''f''\<rparr>) =
     (tx0\<lparr>SrcProof := ''f''\<rparr>, Some (DecodeSrcProofError ''poly'' ErrLength ''f''))"
    using submit_field_errors_and_success [of "tx0\<lparr>SrcProof := ''f''\<rparr>" s0 imp0]
      tx0_present(3)
    by (simp add: hex_f hex_ab01 ev s0_def)
  have e: "submit s0 imp0 (tx0\<lparr>SrcHash := []\<rparr>) = (tx0\<lparr>SrcHash := []\<rparr>, Some InvalidSrcTx)"
    using submit_field_errors_and_success [of "tx0\<lparr>SrcHash := []\<rparr>" s0 imp0] tx0_present(4)
    by simp
  show ?thesis using a b c d e by simp
qed

subsection \<open>Header sync: the retry loop\<close>

lemma loop_accepted:
  "snd (SubmitHeaders nd c hs t) = None \<Longrightarrow> SubmitHeadersWithLoop nd c hs t = Some (None, Suc t)"
  by (subst SubmitHeadersWithLoop.simps) simp

lemma loop_fork:
  "snd (SubmitHeaders nd c hs t) = Some e \<Longrightarrow> fork_error e \<Longrightarrow>
   SubmitHeadersWithLoop nd c hs t = Some (Some e, Suc t)"
  by (subst SubmitHeadersWithLoop.simps) simp

lemma loop_retry:
  "snd (SubmitHeaders nd c hs t) = Some e \<Longrightarrow> \<not> fork_error e \<Longrightarrow>
   SubmitHeadersWithLoop nd c hs t = SubmitHeadersWithLoop nd c hs (Suc t)"
  by (subst SubmitHeadersWithLoop.simps) simp

lemma loop_returns:
  "terminal nd c hs (t + n) \<Longrightarrow> \<exists>r t'. SubmitHeadersWithLoop nd c hs t = Some (r, t')"
proof (induction n arbitrary: t)
  case 0
  then show ?case
    by (auto simp: terminal_def loop_accepted loop_fork split: option.splits)
next
  case (Suc n)
  show ?case
  proof (cases "terminal nd c hs t")
    case True
    then show ?thesis
      by (auto simp: terminal_def loop_accepted loop_fork split: option.splits)
  next
    case False
    then obtain e where e: "snd (SubmitHeaders nd c hs t) = Some e" "\<not> fork_error e"
      by (auto simp: terminal_def split: option.splits)
    from Suc.prems have "terminal nd c hs (Suc t + n)" by simp
    from Suc.IH [OF this] show ?thesis by (simp add: loop_retry [OF e])
  qed
qed

subsection \<open>Header sync: one iteration\<close>

lemma sync_header_shape:
  "sync_header nd cfg h t = Some (acts, t') \<Longrightarrow>
     acts = [] \<or> acts = [ResetSend (Height h - 100)] \<or>
     acts = [CallSubmitHeadersWithLoop (ChainId cfg) [Data h] None] \<or>
     (\<exists>e. acts = [CallSubmitHeadersWithLoop (ChainId cfg) [Data h] (Some e), ResetSend (Height h - 100)])"
  by (auto simp: sync_header_def split: prod.splits option.splits bool.splits if_splits)

lemma commit_headers_shape:
  "commit_headers nd cfg hs height t = Some (acts, t') \<Longrightarrow>
     acts = [CallSubmitHeadersWithLoop (ChainId cfg) hs None] \<or>
     (\<exists>e. acts = [CallSubmitHeadersWithLoop (ChainId cfg) hs (Some e),
                  ResetSend (height - 100 - of_nat (length hs))])"
  by (auto simp: commit_headers_def split: option.splits if_splits)

lemma commit_headers_returns:
  "terminal nd (ChainId cfg) hs (t + n) \<Longrightarrow>
   \<exists>r t'. commit_headers nd cfg hs height t =
     Some (CallSubmitHeadersWithLoop (ChainId cfg) hs r # rollback r (height - 100 - of_nat (length hs)), t')"
proof -
  assume "terminal nd (ChainId cfg) hs (t + n)"
  from loop_returns [OF this] obtain r t' where
    "SubmitHeadersWithLoop nd (ChainId cfg) hs t = Some (r, t')" by blast
  then have "commit_headers nd cfg hs height t =
     Some (CallSubmitHeadersWithLoop (ChainId cfg) hs r # rollback r (height - 100 - of_nat (length hs)), t')"
    by (simp add: commit_headers_def rollback_def)
  then show ?thesis by blast
qed

lemma sync_header_returns:
  assumes "fair nd (ChainId cfg)"
  shows "\<exists>acts t'. sync_header nd cfg h t = Some (acts, t')"
proof -
  from assms obtain n where "terminal nd (ChainId cfg) [Data h] (t + n)"
    unfolding fair_def by blast
  from loop_returns [OF this] obtain r t' where
    "SubmitHeadersWithLoop nd (ChainId cfg) [Data h] t = Some (r, t')" by blast
  then show ?thesis
    by (simp add: sync_header_def split: prod.splits option.splits bool.splits)
qed

lemma commit_headers_fair:
  assumes "fair nd (ChainId cfg)"
  shows "\<exists>acts t'. commit_headers nd cfg hs height t = Some (acts, t')"
proof -
  from assms obtain n where "terminal nd (ChainId cfg) hs (t + n)"
    unfolding fair_def by blast
  from commit_headers_returns [OF this] show ?thesis by blast
qed

subsection \<open>Header sync: whole runs\<close>

lemma single_ok_sync_single:
  "sync_single nd cfg hs t = Some (acts, t') \<Longrightarrow> single_rollbacks_ok acts"
proof (induction hs arbitrary: t acts t')
  case Nil
  then show ?case by simp
next
  case (Cons h hs)
  from Cons.prems obtain a1 t1 a2 where
    1: "sync_header nd cfg h t = Some (a1, t1)" and
    2: "sync_single nd cfg hs t1 = Some (a2, t')" and
    3: "acts = Received h # a1 @ a2"
    by (auto split: option.splits)
  have ok2: "single_rollbacks_ok a2" using Cons.IH [OF 2] .
  have hd2: "a2 = [] \<or> (\<exists>h' r. a2 = Received h' # r)"
    using 2 by (cases hs) (auto split: option.splits)
  from sync_header_shape [OF 1] show ?case
    using ok2 hd2 3 by auto
qed

lemma batch_ok_sync_batch:
  "sync_batch nd cfg evs (map Data buf) height t = Some (acts, t') \<Longrightarrow>
   (buf \<noteq> [] \<longrightarrow> height = Height (last buf)) \<Longrightarrow>
   batch_rollbacks_ok buf acts"
proof (induction evs arbitrary: buf height t acts t')
  case Nil
  then show ?case by (auto split: if_splits)
next
  case (Cons ev evs)
  show ?case
  proof (cases ev)
    case (Recv h)
    show ?thesis
    proof (cases "int (length (map Data buf @ [Data h])) \<ge> Batch cfg")
      case True
      with Cons.prems(1) Recv obtain a1 t1 a2 where
        1: "commit_headers nd cfg (map Data (buf @ [h])) (Height h) t = Some (a1, t1)" and
        2: "sync_batch nd cfg evs (map Data ([]::msg_Header list)) (Height h) t1 = Some (a2, t')" and
        3: "acts = Received h # a1 @ a2"
        by (auto split: option.splits)
      have ok2: "batch_rollbacks_ok [] a2" using Cons.IH [OF 2] by simp
      from commit_headers_shape [OF 1] show ?thesis
        using ok2 3 by auto
    next
      case False
      with Cons.prems(1) Recv obtain a2 where
        2: "sync_batch nd cfg evs (map Data (buf @ [h])) (Height h) t = Some (a2, t')" and
        3: "acts = Received h # a2"
        by (auto split: option.splits)
      have "batch_rollbacks_ok (buf @ [h]) a2" using Cons.IH [OF 2] by simp
      then show ?thesis using 3 by simp
    qed
  next
    case TimeAfter
    show ?thesis
    proof (cases "buf = []")
      case True
      with Cons.prems(1) TimeAfter have "sync_batch nd cfg evs (map Data buf) height t = Some (acts, t')"
        by simp
      from Cons.IH [OF this] Cons.prems(2) show ?thesis by simp
    next
      case False
      with Cons.prems(1) TimeAfter obtain a1 t1 a2 where
        1: "commit_headers nd cfg (map Data buf) height t = Some (a1, t1)" and
        2: "sync_batch nd cfg evs (map Data ([]::msg_Header list)) height t1 = Some (a2, t')" and
        3: "acts = a1 @ a2"
        by (auto split: option.splits)
      have ok2: "batch_rollbacks_ok [] a2" using Cons.IH [OF 2] by simp
      from commit_headers_shape [OF 1] show ?thesis
        using ok2 3 False Cons.prems(2) by auto
    qed
  qed
qed

lemma sync_single_returns:
  assumes "fair nd (ChainId cfg)"
  shows "\<exists>acts t'. sync_single nd cfg hs t = Some (acts, t')"
proof (induction hs arbitrary: t)
  case Nil
  show ?case by simp
next
  case (Cons h hs)
  from sync_header_returns [OF assms] obtain a1 t1 where
    1: "sync_header nd cfg h t = Some (a1, t1)" by blast
  from Cons.IH obtain a2 t2 where 2: "sync_single nd cfg hs t1 = Some (a2, t2)" by blast
  show ?case by (simp add: 1 2)
qed

lemma sync_batch_returns:
  assumes "fair nd (ChainId cfg)"
  shows "\<exists>acts t'. sync_batch nd cfg evs headers height t = Some (acts, t')"
proof (induction evs arbitrary: headers height t)
  case Nil
  show ?case by simp
next
  case (Cons ev evs)
  show ?case
  proof (cases ev)
    case (Recv h)
    from commit_headers_fair [OF assms] obtain a1 t1 where
      1: "commit_headers nd cfg (headers @ [Data h]) (Height h) t = Some (a1, t1)" by blast
    from Cons.IH obtain a2 t2 where
      2: "sync_batch nd cfg evs [] (Height h) t1 = Some (a2, t2)" by blast
    from Cons.IH obtain a3 t3 where
      3: "sync_batch nd cfg evs (headers @ [Data h]) (Height h) t = Some (a3, t3)" by blast
    show ?thesis using Recv 1 2 3 by simp
  next
    case TimeAfter
    from commit_headers_fair [OF assms] obtain a1 t1 where
      1: "commit_headers nd cfg headers height t = Some (a1, t1)" by blast
    from Cons.IH obtain a2 t2 where
      2: "sync_batch nd cfg evs [] height t1 = Some (a2, t2)" by blast
    from Cons.IH obtain a3 t3 where
      3: "sync_batch nd cfg evs headers height t = Some (a3, t3)" by blast
    show ?thesis using TimeAfter 1 2 3 by (cases "headers = []") auto
  qed
qed

subsection \<open>Header sync at the concrete nodes\<close>

lemma nd_fork_sel:
  "SyncBlockHeader nd_fork t c hs = ([], Some (ExtError ''parent header not exist''))"
  "GetSideChainHeader nd_fork t c h = ([], None)"
  by (simp_all add: nd_fork_def)

lemma nd_ok_sel:
  "SyncBlockHeader nd_ok t c hs = (''aa'', None)"
  "Confirm nd_ok t x = None"
  "GetSideChainHeader nd_ok t c h = ([], None)"
  by (simp_all add: nd_ok_def)

lemma fork_error_parent: "fork_error (ExtError ''parent header not exist'')"
  by (simp add: fork_error_def)

lemma nd_fork_loop:
  "SubmitHeadersWithLoop nd_fork c hs t = Some (Some (ExtError ''parent header not exist''), Suc t)"
  by (rule loop_fork) (simp_all add: SubmitHeaders_def nd_fork_sel fork_error_parent)

lemma nd_ok_loop: "SubmitHeadersWithLoop nd_ok c hs t = Some (None, Suc t)"
  by (rule loop_accepted) (simp add: SubmitHeaders_def nd_ok_sel)

lemma fair_nd_fork: "fair nd_fork c"
  unfolding fair_def terminal_def
  by (simp add: SubmitHeaders_def nd_fork_sel fork_error_parent)

lemma fair_nd_ok: "fair nd_ok c"
  unfolding fair_def terminal_def
  by (simp add: SubmitHeaders_def nd_ok_sel)

lemma run_single_250:
  "startSync nd_fork cfg1 [Recv (header_at 250)] 0 =
     Some ([Received (header_at 250),
            CallSubmitHeadersWithLoop 2 [[250]] (Some (ExtError ''parent header not exist'')),
            ResetSend 150], 1)"
  by (simp add: startSync_def cfg1_def sync_header_def CheckHeaderExistence_def nd_fork_loop
      nd_fork_sel header_at_def)

lemma run_batch_250:
  "startSync nd_fork cfg4 [Recv (header_at 249), TimeAfter, Recv (header_at 250), Recv (header_at 251)] 0 =
     Some ([Received (header_at 249),
            CallSubmitHeadersWithLoop 2 [[249]] (Some (ExtError ''parent header not exist'')),
            ResetSend 148, Received (header_at 250), Received (header_at 251),
            CallSubmitHeaders 2 [[250], [251]]], 2)"
  by (simp add: startSync_def cfg4_def commit_headers_def nd_fork_loop header_at_def)

subsection \<open>Rollback heights\<close>

text \<open>
  C5.  In every run of \<open>startSync\<close> that returns, in single mode a failed submission
  of the header at height \<open>H\<close> (and a failed existence check) is followed by the height
  \<open>H - 100\<close> on the reset channel, and nothing else is sent there; in batch mode a
  failed submission of a buffer of \<open>k\<close> headers whose last one has height \<open>H\<close> is
  followed by \<open>H - 100 - k\<close>, and nothing else is sent there.  The subtraction is that
  of \<open>uint64\<close>.  With a node that ends every retry loop, the run returns.
\<close>

theorem startSync_rollback_heights:
  "(startSync nd cfg ch t = Some (acts, t') \<longrightarrow>
      (if Batch cfg = 1 then single_rollbacks_ok acts else batch_rollbacks_ok [] acts)) \<and>
   (fair nd (ChainId cfg) \<longrightarrow> (\<exists>acts t'. startSync nd cfg ch t = Some (acts, t')))"
proof (intro conjI impI)
  assume run: "startSync nd cfg ch t = Some (acts, t')"
  show "if Batch cfg = 1 then single_rollbacks_ok acts else batch_rollbacks_ok [] acts"
  proof (cases "Batch cfg = 1")
    case True
    with run show ?thesis by (simp add: startSync_def single_ok_sync_single)
  next
    case False
    with run have "sync_batch nd cfg ch (map Data ([]::msg_Header list)) 0 t = Some (acts, t')"
      by (simp add: startSync_def)
    from batch_ok_sync_batch [OF this] False show ?thesis by simp
  qed
next
  assume "fair nd (ChainId cfg)"
  then show "\<exists>acts t'. startSync nd cfg ch t = Some (acts, t')"
    by (simp add: startSync_def sync_single_returns sync_batch_returns)
qed

theorem startSync_rollback_heights_witness:
  "startSync nd_fork cfg1 [Recv (header_at 250)] 0 =
     Some ([Received (header_at 250),
            CallSubmitHeadersWithLoop 2 [[250]] (Some (ExtError ''parent header not exist'')),
            ResetSend 150], 1) \<and>
   single_rollbacks_ok [Received (header_at 250),
            CallSubmitHeadersWithLoop 2 [[250]] (Some (ExtError ''parent header not exist'')),
            ResetSend 150] \<and>
   startSync nd_fork cfg4 [Recv (header_at 249), TimeAfter, Recv (header_at 250), Recv (header_at 251)] 0 =
     Some ([Received (header_at 249),
            CallSubmitHeadersWithLoop 2 [[249]] (Some (ExtError ''parent header not exist'')),
            ResetSend 148, Received (header_at 250), Received (header_at 251),
            CallSubmitHeaders 2 [[250], [251]]], 2) \<and>
   batch_rollbacks_ok [] [Received (header_at 249),
            CallSubmitHeadersWithLoop 2 [[249]] (Some (ExtError ''parent header not exist'')),
            ResetSend 148, Received (header_at 250), Received (header_at 251),
            CallSubmitHeaders 2 [[250], [251]]] \<and>
   fair nd_fork (ChainId cfg1)"
  using startSync_rollback_heights [of nd_fork cfg1 "[Recv (header_at 250)]" 0
      "[Received (header_at 250),
        CallSubmitHeadersWithLoop 2 [[250]] (Some (ExtError ''parent header not exist'')),
        ResetSend 150]" 1]
    startSync_rollback_heights [of nd_fork cfg4
      "[Recv (header_at 249), TimeAfter, Recv (header_at 250), Recv (header_at 251)]" 0
      "[Received (header_at 249),
        CallSubmitHeadersWithLoop 2 [[249]] (Some (ExtError ''parent header not exist'')),
        ResetSend 148, Received (header_at 250), Received (header_at 251),
        CallSubmitHeaders 2 [[250], [251]]]" 2]
    run_single_250 run_batch_250 fair_nd_fork [of "ChainId cfg1"]
  by (simp add: cfg1_def cfg4_def)

subsection \<open>Batches of four\<close>

text \<open>
  C8.  With \<open>Batch = 4\<close>, nine headers followed by the closing of the channel, and a
  node that ends every retry loop, \<open>startSync\<close> returns after exactly three
  submissions, in this order: the first four headers and the next four, each through
  \<open>SubmitHeadersWithLoop\<close> (followed by a reset signal only if it returned an error),
  and last the ninth header alone through one call of \<open>SubmitHeaders\<close>, with no retry
  and nothing sent on the reset channel after it.
\<close>

theorem batch_of_four_nine_headers:
  assumes b: "Batch cfg = 4"
    and fair: "\<forall>hs t. \<exists>n. terminal nd (ChainId cfg) hs (t + n)"
  shows "\<exists>r1 r2 t'.
     startSync nd cfg (map Recv [h1, h2, h3, h4, h5, h6, h7, h8, h9]) t =
       Some ([Received h1, Received h2, Received h3, Received h4,
              CallSubmitHeadersWithLoop (ChainId cfg) [Data h1, Data h2, Data h3, Data h4] r1] @
             rollback r1 (Height h4 - 100 - 4) @
             [Received h5, Received h6, Received h7, Received h8,
              CallSubmitHeadersWithLoop (ChainId cfg) [Data h5, Data h6, Data h7, Data h8] r2] @
             rollback r2 (Height h8 - 100 - 4) @
             [Received h9, CallSubmitHeaders (ChainId cfg) [Data h9]], t')"
proof -
  from fair obtain n1 where "terminal nd (ChainId cfg) [Data h1, Data h2, Data h3, Data h4] (t + n1)"
    by blast
  from commit_headers_returns [OF this, of "Height h4"] obtain r1 t1 where
    c1: "commit_headers nd cfg [Data h1, Data h2, Data h3, Data h4] (Height h4) t =
      Some (CallSubmitHeadersWithLoop (ChainId cfg) [Data h1, Data h2, Data h3, Data h4] r1 #
            rollback r1 (Height h4 - 100 - 4), t1)"
    by auto
  from fair obtain n2 where "terminal nd (ChainId cfg) [Data h5, Data h6, Data h7, Data h8] (t1 + n2)"
    by blast
  from commit_headers_returns [OF this, of "Height h8"] obtain r2 t2 where
    c2: "commit_headers nd cfg [Data h5, Data h6, Data h7, Data h8] (Height h8) t1 =
      Some (CallSubmitHeadersWithLoop (ChainId cfg) [Data h5, Data h6, Data h7, Data h8] r2 #
            rollback r2 (Height h8 - 100 - 4), t2)"
    by auto
  have "startSync nd cfg (map Recv [h1, h2, h3, h4, h5, h6, h7, h8, h9]) t =
       Some ([Received h1, Received h2, Received h3, Received h4,
              CallSubmitHeadersWithLoop (ChainId cfg) [Data h1, Data h2, Data h3, Data h4] r1] @
             rollback r1 (Height h4 - 100 - 4) @
             [Received h5, Received h6, Received h7, Received h8,
              CallSubmitHeadersWithLoop (ChainId cfg) [Data h5, Data h6, Data h7, Data h8] r2] @
             rollback r2 (Height h8 - 100 - 4) @
             [Received h9, CallSubmitHeaders (ChainId cfg) [Data h9]], Suc t2)"
    by (simp add: startSync_def b c1 c2)
  then show ?thesis by blast
qed

theorem batch_of_four_nine_headers_witness:
  "Batch cfg4 = 4 \<and> fair nd_ok (ChainId cfg4) \<and>
   startSync nd_ok cfg4 (map Recv [header_at 1, header_at 2, header_at 3, header_at 4, header_at 5, header_at 6, header_at 7, header_at 8, header_at 9]) 0 =
     Some ([Received (header_at 1), Received (header_at 2), Received (header_at 3), Received (header_at 4),
            CallSubmitHeadersWithLoop 2 [[1], [2], [3], [4]] None,
            Received (header_at 5), Received (header_at 6), Received (header_at 7), Received (header_at 8),
            CallSubmitHeadersWithLoop 2 [[5], [6], [7], [8]] None,
            Received (header_at 9), CallSubmitHeaders 2 [[9]]], 3)"
proof -
  have b: "Batch cfg4 = 4" by (simp add: cfg4_def)
  have f: "\<forall>hs t. \<exists>n. terminal nd_ok (ChainId cfg4) hs (t + n)"
    using fair_nd_ok [of "ChainId cfg4"] by (simp add: fair_def)
  from batch_of_four_nine_headers [OF b f, of "header_at 1" "header_at 2" "header_at 3" "header_at 4" "header_at 5" "header_at 6" "header_at 7" "header_at 8" "header_at 9" 0]
  show ?thesis
    using fair_nd_ok [of "ChainId cfg4"]
    by (simp add: startSync_def cfg4_def commit_headers_def nd_ok_loop header_at_def)
qed

subsection \<open>Wrap-around of the rollback height\<close>

text \<open>
  C10 as stated fails at the boundary: a failing header at height exactly 100 in single
  mode, and a failing batch of four ending at height 104, signal the height 0.
\<close>

theorem rollback_at_boundary_is_zero:
  "unat (Height (header_at 100)) \<le> 100 \<and>
   sync_header nd_fork cfg1 (header_at 100) 0 =
     Some ([CallSubmitHeadersWithLoop 2 [[100]] (Some (ExtError ''parent header not exist'')),
            ResetSend 0], 1) \<and>
   unat (Height (header_at 104)) \<le> 100 + length [[101::u8], [102], [103], [104]] \<and>
   commit_headers nd_fork cfg4 [[101], [102], [103], [104]] (Height (header_at 104)) 0 =
     Some ([CallSubmitHeadersWithLoop 2 [[101], [102], [103], [104]]
              (Some (ExtError ''parent header not exist'')),
            ResetSend 0], 1)"
  by (simp add: sync_header_def CheckHeaderExistence_def commit_headers_def nd_fork_loop
      nd_fork_sel header_at_def cfg1_def cfg4_def)

text \<open>
  C10, amended.  The height sent on the reset channel is computed in \<open>uint64\<close>: in
  single mode it is \<open>2^64 - 100 + H\<close> when \<open>H < 100\<close> and \<open>H - 100\<close> when \<open>100 \<le> H\<close>; in
  batch mode with \<open>k\<close> buffered headers it is \<open>2^64 - (100 + k) + H\<close> when
  \<open>H < 100 + k\<close> and \<open>H - (100 + k)\<close> when \<open>100 + k \<le> H\<close>.  So the value wraps to one
  near \<open>2^64\<close> exactly below the boundary, and is 0 at it.
\<close>

theorem rollback_height_wraps:
  "(sync_header nd cfg header t = Some (acts, t') \<and> ResetSend r \<in> set acts \<longrightarrow>
      (unat (Height header) < 100 \<longrightarrow> unat r = 2 ^ 64 - 100 + unat (Height header)) \<and>
      (100 \<le> unat (Height header) \<longrightarrow> unat r = unat (Height header) - 100)) \<and>
   (commit_headers nd cfg headers height t = Some (acts, t') \<and> ResetSend r \<in> set acts \<and>
    length headers < 2 ^ 63 \<longrightarrow>
      (unat height < 100 + length headers \<longrightarrow>
         unat r = 2 ^ 64 - (100 + length headers) + unat height) \<and>
      (100 + length headers \<le> unat height \<longrightarrow> unat r = unat height - (100 + length headers)))"
proof -
  have single: "unat (H - 100) = (if unat H < 100 then 2 ^ 64 - 100 + unat H else unat H - 100)"
    for H :: u64
    by (simp add: unat_sub_if_size word_size)
  have batch: "unat (H - 100 - of_nat k) =
       (if unat H < 100 + k then 2 ^ 64 - (100 + k) + unat H else unat H - (100 + k))"
    if "k < 2 ^ 63" for H :: u64 and k :: nat
  proof -
    define a :: u64 where "a = 100 + of_nat k"
    have k: "unat (of_nat k :: u64) = k"
      using that by (simp add: unat_of_nat)
    have a: "unat a = 100 + k"
      using that by (simp add: a_def unat_word_ariths k)
    have eq: "H - 100 - of_nat k = H - a"
      by (simp add: a_def)
    have H: "unat H < 2 ^ 64"
      using unsigned_less [of H] by simp
    have "unat (H - a) = (if unat a \<le> unat H then unat H - unat a else unat H + 2 ^ 64 - unat a)"
      by (simp add: unat_sub_if_size word_size)
    then show ?thesis
      unfolding eq using a H that by auto
  qed
  show ?thesis
    using sync_header_shape [of nd cfg header t acts t']
      commit_headers_shape [of nd cfg headers height t acts t']
    by (auto simp: single batch)
qed

theorem rollback_height_wraps_witness:
  "sync_header nd_fork cfg1 (header_at 99) 0 =
     Some ([CallSubmitHeadersWithLoop 2 [[99]] (Some (ExtError ''parent header not exist'')),
            ResetSend 18446744073709551615], 1) \<and>
   unat (18446744073709551615 :: u64) = 2 ^ 64 - 100 + unat (Height (header_at 99)) \<and>
   commit_headers nd_fork cfg4 [[1], [2], [3], [4]] (Height (header_at 4)) 0 =
     Some ([CallSubmitHeadersWithLoop 2 [[1], [2], [3], [4]]
              (Some (ExtError ''parent header not exist'')),
            ResetSend 18446744073709551516], 1) \<and>
   unat (18446744073709551516 :: u64) =
     2 ^ 64 - (100 + length [[1::u8], [2], [3], [4]]) + unat (Height (header_at 4))"
proof -
  have 1: "sync_header nd_fork cfg1 (header_at 99) 0 =
     Some ([CallSubmitHeadersWithLoop 2 [[99]] (Some (ExtError ''parent header not exist'')),
            ResetSend 18446744073709551615], 1)"
    by (simp add: sync_header_def CheckHeaderExistence_def nd_fork_loop nd_fork_sel header_at_def
        cfg1_def)
  have 2: "commit_headers nd_fork cfg4 [[1], [2], [3], [4]] (Height (header_at 4)) 0 =
     Some ([CallSubmitHeadersWithLoop 2 [[1], [2], [3], [4]]
              (Some (ExtError ''parent header not exist'')),
            ResetSend 18446744073709551516], 1)"
    by (simp add: commit_headers_def nd_fork_loop header_at_def cfg4_def)
  have h99: "unat (Height (header_at 99)) < 100" and h4: "unat (Height (header_at 4)) < 100 + length [[1::u8], [2], [3], [4]]"
    by (simp_all add: header_at_def)
  show ?thesis
    using rollback_height_wraps [of nd_fork cfg1 "header_at 99" 0
        "[CallSubmitHeadersWithLoop 2 [[99]] (Some (ExtError ''parent header not exist'')),
          ResetSend 18446744073709551615]" 1 "18446744073709551615"]
      rollback_height_wraps [of nd_fork cfg4 _ 0
        "[CallSubmitHeadersWithLoop 2 [[1], [2], [3], [4]]
            (Some (ExtError ''parent header not exist'')),
          ResetSend 18446744073709551516]" 1 "18446744073709551516"
        "[[1], [2], [3], [4]]" "Height (header_at 4)"] 1 2 h99 h4
    by simp
qed

subsection \<open>CheckEpoch\<close>

lemma encode_keys_None:
  assumes "\<forall>x. length (Keccak256 L x) = 32"
  shows "encode_keys L ks pk sink = (pk', sink', None) \<Longrightarrow>
     list_all (key_encodes L) ks \<and>
     pk' = pk @ concat (map (\<lambda>k. fst (EncodePubKey L k)) ks) \<and>
     sink' = sink @ concat (map (\<lambda>k. WriteVarBytes L (the (keeper_address L k))) ks)"
proof (induction ks arbitrary: pk sink)
  case Nil
  then show ?case by simp
next
  case (Cons k ks)
  from Cons.prems obtain bs eb where
    1: "EncodePubKey L k = (bs, None)" and 2: "EncodeEthPubKey L k = (eb, None)" and
    3: "eb \<noteq> []" and
    4: "encode_keys L ks (pk @ bs) (sink @ WriteVarBytes L (drop 12 (Keccak256 L (drop 1 eb)))) =
          (pk', sink', None)"
    by (auto simp: assms split: prod.splits option.splits if_splits)
  have addr: "keeper_address L k = Some (drop 12 (Keccak256 L (drop 1 eb)))"
    using 2 3 assms by (simp add: keeper_address_def drop_Suc)
  from Cons.IH [OF 4] addr 1 show ?case by (simp add: key_encodes_def)
qed

lemma encode_keys_Some:
  assumes "\<forall>x. length (Keccak256 L x) = 32"
  shows "encode_keys L ks pk sink = (pk', sink', Some e) \<Longrightarrow>
     \<not> list_all (key_encodes L) ks"
proof (induction ks arbitrary: pk sink)
  case Nil
  then show ?case by simp
next
  case (Cons k ks)
  show ?case
  proof (cases "keeper_address L k \<noteq> None \<and> snd (EncodePubKey L k) = None")
    case False
    then show ?thesis by (auto simp: key_encodes_def)
  next
    case True
    then obtain bs eb where
      1: "EncodePubKey L k = (bs, None)" and 2: "EncodeEthPubKey L k = (eb, None)" and 3: "eb \<noteq> []"
      by (cases "EncodePubKey L k"; cases "EncodeEthPubKey L k")
        (auto simp: keeper_address_def split: option.splits if_splits)
    from Cons.prems 1 2 3 assms have
      "encode_keys L ks (pk @ bs) (sink @ WriteVarBytes L (drop 12 (Keccak256 L (drop 1 eb)))) =
        (pk', sink', Some e)" by simp
    from Cons.IH [OF this] show ?thesis by simp
  qed
qed

lemma encode_keys_total:
  "\<exists>pk' sink' e. encode_keys L ks pk sink = (pk', sink', e)"
  by (cases "encode_keys L ks pk sink") auto

lemma CheckEpoch_empty_bookkeeper:
  "DstPolyKeepers tx \<noteq> [] \<Longrightarrow> NextBookkeeper h = ADDRESS_EMPTY \<Longrightarrow>
   CheckEpoch L tx (Some h) = (False, [], None)"
  by (simp add: CheckEpoch_def)

lemma CheckEpoch_no_error:
  assumes k: "DstPolyKeepers tx \<noteq> []" and h32: "\<forall>x. length (Keccak256 L x) = 32"
    and nb: "NextBookkeeper h \<noteq> ADDRESS_EMPTY"
    and r: "CheckEpoch L tx (Some h) = (epoch, pk, None)"
  shows "\<exists>enc. keeper_encoding L h = Some enc \<and> epoch = (enc \<noteq> DstPolyKeepers tx)"
proof -
  from r k nb obtain info cc where
    u: "Unmarshal L (ConsensusPayload h) = (info, None)" and c: "NewChainConfig info = Some cc"
    by (auto simp: CheckEpoch_def split: prod.splits option.splits)
  define bks where "bks = SortPublicKeys L (peer_keys L cc)"
  from r k nb u c obtain sink where
    e: "encode_keys L bks [] (WriteUint64 L (of_nat (length bks))) = (pk, sink, None)" and
    ep: "epoch = (DstPolyKeepers tx \<noteq> sink)"
    by (auto simp: CheckEpoch_def Let_def bks_def split: prod.splits option.splits)
  from encode_keys_None [OF h32 e] have
    "keeper_encoding L h = Some sink"
    by (simp add: keeper_encoding_def header_keepers_def u c bks_def key_encodes_def list_all_iff)
  with ep show ?thesis by auto
qed

lemma CheckEpoch_error:
  "CheckEpoch L tx hdr = (epoch, pk, Some e) \<Longrightarrow> \<not> epoch"
  by (auto simp: CheckEpoch_def Let_def split: prod.splits option.splits if_splits)

lemma CheckEpoch_error_iff:
  assumes k: "DstPolyKeepers tx \<noteq> []" and h32: "\<forall>x. length (Keccak256 L x) = 32"
    and nb: "NextBookkeeper h \<noteq> ADDRESS_EMPTY"
  shows "snd (snd (CheckEpoch L tx (Some h))) = None \<longleftrightarrow>
           (\<exists>bks. header_keepers L h = Some bks \<and> list_all (key_encodes L) bks)"
proof (cases "header_keepers L h")
  case None
  then show ?thesis using k nb
    by (auto simp: CheckEpoch_def header_keepers_def split: prod.splits option.splits)
next
  case (Some bks)
  then obtain info cc where
    u: "Unmarshal L (ConsensusPayload h) = (info, None)" and c: "NewChainConfig info = Some cc"
    and b: "bks = SortPublicKeys L (peer_keys L cc)"
    by (auto simp: header_keepers_def split: prod.splits option.splits)
  obtain pk sink e where
    e: "encode_keys L bks [] (WriteUint64 L (of_nat (length bks))) = (pk, sink, e)"
    using encode_keys_total by blast
  have res: "snd (snd (CheckEpoch L tx (Some h))) = e"
    using k nb u c b e by (cases e) (simp_all add: CheckEpoch_def Let_def)
  show ?thesis
  proof (cases e)
    case None
    with e encode_keys_None [OF h32, of bks "[]" _ pk sink]
    have "list_all (key_encodes L) bks" by simp
    with res None \<open>header_keepers L h = Some bks\<close> show ?thesis by simp
  next
    case (Some err)
    with e encode_keys_Some [OF h32] have "\<not> list_all (key_encodes L) bks" by blast
    with res Some \<open>header_keepers L h = Some bks\<close> show ?thesis by simp
  qed
qed

lemma toy_digest_32: "\<forall>x. length (Keccak256 toy_keys x) = 32"
  by (auto simp: toy_keys_def min_def)

lemma tx_c_keepers: "DstPolyKeepers tx_c \<noteq> []"
  by (simp add: tx_c_def new_Tx_def)

lemma rot_bookkeeper: "NextBookkeeper hdr_rot \<noteq> ADDRESS_EMPTY"
  by code_simp

lemma quiet_bookkeeper: "NextBookkeeper hdr_quiet = ADDRESS_EMPTY"
  by code_simp

lemma rot_encoding:
  "keeper_encoding toy_keys hdr_rot =
     Some [2, 0, 0, 0, 0, 0, 0, 0,
           20, 0, 0, 0, 0, 0, 0, 0, 0, 0, 0, 0, 0, 0, 0, 0, 0, 0, 0, 0, 1,
           20, 0, 0, 0, 0, 0, 0, 0, 0, 0, 0, 0, 0, 0, 0, 0, 0, 0, 0, 0, 2]"
  by code_simp

text \<open>
  C4.  For a Tx with non-empty \<open>DstPolyKeepers\<close> and a header: when the header's next
  bookkeeper is the empty address, \<open>CheckEpoch\<close> reports no rotation and no error.
  Otherwise it reports rotation exactly when the header's keeper keys can be decoded and
  encoded and the canonical encoding built from them (the count, then for each key in
  sorted order the length-prefixed trailing 20 bytes of the Keccak-256 digest of its
  uncompressed form without the first byte) differs from \<open>DstPolyKeepers\<close>; it returns
  no error exactly when the keys can be decoded and encoded.  The digest is 32 bytes
  long, as Keccak-256 is.
\<close>

theorem CheckEpoch_rotation:
  assumes "DstPolyKeepers tx \<noteq> []" and "\<forall>x. length (Keccak256 L x) = 32"
  shows
    "(NextBookkeeper h = ADDRESS_EMPTY \<longrightarrow> CheckEpoch L tx (Some h) = (False, [], None)) \<and>
     (NextBookkeeper h \<noteq> ADDRESS_EMPTY \<longrightarrow>
        (fst (CheckEpoch L tx (Some h)) \<longleftrightarrow>
           (\<exists>bks. header_keepers L h = Some bks \<and> list_all (key_encodes L) bks) \<and>
           (\<exists>enc. keeper_encoding L h = Some enc \<and> enc \<noteq> DstPolyKeepers tx)) \<and>
        (snd (snd (CheckEpoch L tx (Some h))) = None \<longleftrightarrow>
           (\<exists>bks. header_keepers L h = Some bks \<and> list_all (key_encodes L) bks)))"
proof (intro conjI impI)
  assume "NextBookkeeper h = ADDRESS_EMPTY"
  with assms(1) show "CheckEpoch L tx (Some h) = (False, [], None)"
    by (rule CheckEpoch_empty_bookkeeper)
next
  assume nb: "NextBookkeeper h \<noteq> ADDRESS_EMPTY"
  note iff = CheckEpoch_error_iff [OF assms nb]
  show "snd (snd (CheckEpoch L tx (Some h))) = None \<longleftrightarrow>
          (\<exists>bks. header_keepers L h = Some bks \<and> list_all (key_encodes L) bks)"
    by (rule iff)
  obtain epoch pk e where r: "CheckEpoch L tx (Some h) = (epoch, pk, e)"
    by (cases "CheckEpoch L tx (Some h)") auto
  show "fst (CheckEpoch L tx (Some h)) \<longleftrightarrow>
          (\<exists>bks. header_keepers L h = Some bks \<and> list_all (key_encodes L) bks) \<and>
          (\<exists>enc. keeper_encoding L h = Some enc \<and> enc \<noteq> DstPolyKeepers tx)"
  proof (cases e)
    case None
    with r CheckEpoch_no_error [OF assms nb] obtain enc where
      "keeper_encoding L h = Some enc" "epoch = (enc \<noteq> DstPolyKeepers tx)" by blast
    with r None iff show ?thesis by auto
  next
    case (Some err)
    with r CheckEpoch_error have "\<not> epoch" by blast
    with r Some iff show ?thesis by auto
  qed
qed

theorem CheckEpoch_rotation_witness:
  "DstPolyKeepers tx_c \<noteq> [] \<and>
   NextBookkeeper hdr_quiet = ADDRESS_EMPTY \<and>
   CheckEpoch toy_keys tx_c (Some hdr_quiet) = (False, [], None) \<and>
   NextBookkeeper hdr_rot \<noteq> ADDRESS_EMPTY \<and>
   keeper_encoding toy_keys hdr_rot =
     Some [2, 0, 0, 0, 0, 0, 0, 0,
           20, 0, 0, 0, 0, 0, 0, 0, 0, 0, 0, 0, 0, 0, 0, 0, 0, 0, 0, 0, 1,
           20, 0, 0, 0, 0, 0, 0, 0, 0, 0, 0, 0, 0, 0, 0, 0, 0, 0, 0, 0, 2] \<and>
   fst (CheckEpoch toy_keys tx_c (Some hdr_rot))"
proof -
  have enc: "\<exists>enc. keeper_encoding toy_keys hdr_rot = Some enc \<and> enc \<noteq> DstPolyKeepers tx_c"
    by (simp add: rot_encoding tx_c_def new_Tx_def)
  have ok: "\<exists>bks. header_keepers toy_keys hdr_rot = Some bks \<and> list_all (key_encodes toy_keys) bks"
  proof -
    have "header_keepers toy_keys hdr_rot = Some [1, 2]" by code_simp
    moreover have "list_all (key_encodes toy_keys) [1, 2]" by code_simp
    ultimately show ?thesis by blast
  qed
  from CheckEpoch_rotation [OF tx_c_keepers toy_digest_32, of hdr_quiet]
       CheckEpoch_rotation [OF tx_c_keepers toy_digest_32, of hdr_rot]
  show ?thesis
    using tx_c_keepers quiet_bookkeeper rot_bookkeeper rot_encoding enc ok by simp
qed

subsection \<open>ComposeTx: what the parts leave untouched\<close>

lemma fetched_headers_append [simp]:
  "fetched_headers (xs @ ys) = fetched_headers xs @ fetched_headers ys"
  by (induction xs rule: fetched_headers.induct) auto

lemma fetched_merkle_append [simp]:
  "fetched_merkle (xs @ ys) = fetched_merkle xs @ fetched_merkle ys"
  by (induction xs rule: fetched_merkle.induct) auto

lemma resolve_PolyHeight_frame:
  "resolve_PolyHeight nd tx = (tx', tr, e) \<Longrightarrow>
     fetched_headers tr = [] \<and> fetched_merkle tr = [] \<and>
     tx' = tx\<lparr>PolyHeight := PolyHeight tx'\<rparr>"
  by (auto simp: resolve_PolyHeight_def split: if_splits prod.splits)

lemma replay_notify_frame:
  "replay_notify X nd height ns r tr = (res, tr') \<Longrightarrow>
     fetched_headers tr' = fetched_headers tr \<and> fetched_merkle tr' = fetched_merkle tr"
proof (induction X nd height ns r tr arbitrary: res tr' rule: replay_notify.induct)
  case (1 X nd height param path evt err tr)
  then show ?case by simp
next
  case (2 X nd height notify rest param path evt err tr)
  show ?case
  proof (cases "ContractAddress notify = CCM_ADDRESS X")
    case False
    with "2.prems" "2.IH"(4) show ?thesis by simp
  next
    case addr: True
    show ?thesis
    proof (cases "States notify")
      case (JArray states)
      show ?thesis
      proof (cases "length states > 5")
        case False
        with "2.prems" "2.IH"(3) addr JArray show ?thesis by simp
      next
        case len: True
        show ?thesis
        proof (cases "(case states ! 0 of JString m \<Rightarrow> m | _ \<Rightarrow> []) = ''makeProof''")
          case False
          with "2.prems" "2.IH"(2) addr JArray len show ?thesis by simp
        next
          case mk: True
          show ?thesis
          proof (cases "states ! 5")
            case (JString key)
            obtain p' pa' ev' e' where g: "GetProof X nd height key = (p', pa', ev', e')"
              by (cases "GetProof X nd height key") auto
            show ?thesis
            proof (cases e')
              case None
              with "2.prems" addr JArray len mk JString g show ?thesis by auto
            next
              case (Some e)
              with "2.prems" addr JArray len mk JString g have
                "replay_notify X nd height rest (p', pa', ev', Some e)
                   (tr @ [RpcGetCrossStatesProof height key]) = (res, tr')" by simp
              from "2.IH"(1) [OF addr JArray len mk JString _ _ _ _ this] g Some
              show ?thesis by simp
            qed
          qed (use "2.prems" addr JArray len mk in auto)
        qed
      qed
    qed (use "2.prems" addr in auto)
  qed
qed

lemma GetPolyParams_frame:
  "GetPolyParams X nd tx = (tx', res, tr) \<Longrightarrow>
     fetched_headers tr = [] \<and> fetched_merkle tr = [] \<and>
     AnchorHeader tx' = AnchorHeader tx \<and> AnchorProof tx' = AnchorProof tx"
proof -
  assume g: "GetPolyParams X nd tx = (tx', res, tr)"
  obtain tx1 tr1 e1 where r: "resolve_PolyHeight nd tx = (tx1, tr1, e1)"
    by (cases "resolve_PolyHeight nd tx") auto
  from resolve_PolyHeight_frame [OF r] have
    f1: "fetched_headers tr1 = []" "fetched_merkle tr1 = []" and
    t1: "AnchorHeader tx1 = AnchorHeader tx" "AnchorProof tx1 = AnchorProof tx"
    by (auto simp: resolve_PolyHeight_def split: if_splits prod.splits
          dest: arg_cong [where f = AnchorHeader] arg_cong [where f = AnchorProof])
  show ?thesis
  proof (cases "PolyHash tx = [] \<or> e1 \<noteq> None \<or> PolyKey tx1 \<noteq> []")
    case True
    with g r f1 t1 show ?thesis
      by (auto simp: GetPolyParams_def split: if_splits option.splits)
  next
    case False
    obtain ev e2 where ev: "GetSmartContractEvent nd (PolyHash tx1) = (ev, e2)"
      by (cases "GetSmartContractEvent nd (PolyHash tx1)") auto
    show ?thesis
    proof (cases "e2 = None \<and> ev \<noteq> None")
      case False
      with g r f1 t1 ev \<open>\<not> (PolyHash tx = [] \<or> e1 \<noteq> None \<or> PolyKey tx1 \<noteq> [])\<close>
      show ?thesis
        by (auto simp: GetPolyParams_def split: if_splits option.splits)
    next
      case True
      then obtain event where event: "ev = Some event" "e2 = None" by auto
      obtain res2 tr2 where
        rp: "replay_notify X nd (PolyHeight tx1) (Notify event) (None, [], Some event, None)
               (tr1 @ [RpcGetSmartContractEvent (PolyHash tx1)]) = (res2, tr2)"
        by (cases "replay_notify X nd (PolyHeight tx1) (Notify event) (None, [], Some event, None)
               (tr1 @ [RpcGetSmartContractEvent (PolyHash tx1)])") auto
      from replay_notify_frame [OF rp] f1 have
        "fetched_headers tr2 = []" "fetched_merkle tr2 = []" by simp_all
      with g r t1 ev event rp \<open>\<not> (PolyHash tx = [] \<or> e1 \<noteq> None \<or> PolyKey tx1 \<noteq> [])\<close>
      show ?thesis
        by (auto simp: GetPolyParams_def)
    qed
  qed
qed

lemma fetch_anchor_zero:
  "fetch_anchor nd tx 0 = (tx, [], None)"
  by (simp add: fetch_anchor_def)

lemma fetch_anchor_nonzero:
  "a \<noteq> 0 \<Longrightarrow> fetch_anchor nd tx a = (tx', tr, e) \<Longrightarrow>
     fetched_headers tr = [a] \<and>
     fetched_merkle tr = (if snd (GetHeaderByHeight nd a) = None then [(PolyHeight tx + 1, a)] else []) \<and>
     AnchorHeader tx' = fst (GetHeaderByHeight nd a) \<and>
     AnchorProof tx' =
       (if snd (GetHeaderByHeight nd a) = None \<and> snd (GetMerkleProof nd (PolyHeight tx + 1) a) = None
        then fst (GetMerkleProof nd (PolyHeight tx + 1) a) else AnchorProof tx)"
  by (auto simp: fetch_anchor_def word_gt_0 split: prod.splits option.splits)

lemma fetch_anchor_frame:
  "fetch_anchor nd tx a = (tx', tr, e) \<Longrightarrow>
     PolyHeight tx' = PolyHeight tx \<and> PolyHash tx' = PolyHash tx \<and> PolyKey tx' = PolyKey tx"
  by (auto simp: fetch_anchor_def split: prod.splits option.splits if_splits)

lemma CollectSigs_frame:
  "CollectSigs X tx = (tx', e) \<Longrightarrow>
     AnchorHeader tx' = AnchorHeader tx \<and> AnchorProof tx' = AnchorProof tx"
  by (auto simp: CollectSigs_def Let_def split: prod.splits option.splits if_splits)

lemma check_method_frame:
  "check_method X tx = (tx', e) \<Longrightarrow>
     AnchorHeader tx' = AnchorHeader tx \<and> AnchorProof tx' = AnchorProof tx"
  by (auto simp: check_method_def invalid_poly_tx_def dest: CollectSigs_frame
        split: prod.splits option.splits if_splits)

lemma select_anchor_rule:
  assumes "select_anchor L tx = (ah, e)"
  shows "(e = None \<longrightarrow>
            ah = (case anchor_rule (PolyHeight tx) (DstPolyEpochStartHeight tx)
                         (fst (CheckEpoch L tx (PolyHeader tx))) of
                    None \<Rightarrow> 0 | Some a \<Rightarrow> a)) \<and>
         (e \<noteq> None \<longrightarrow>
            anchor_rule (PolyHeight tx) (DstPolyEpochStartHeight tx)
              (fst (CheckEpoch L tx (PolyHeader tx))) = None)"
proof (cases "PolyHeight tx < DstPolyEpochStartHeight tx")
  case True
  with assms show ?thesis by (auto simp: select_anchor_def anchor_rule_def)
next
  case False
  obtain ep pk ce where c: "CheckEpoch L tx (PolyHeader tx) = (ep, pk, ce)"
    by (cases "CheckEpoch L tx (PolyHeader tx)") auto
  show ?thesis
  proof (cases ce)
    case None
    with assms False c show ?thesis by (auto simp: select_anchor_def anchor_rule_def)
  next
    case (Some err)
    with c CheckEpoch_error have "\<not> ep" by blast
    with assms False c Some show ?thesis by (auto simp: select_anchor_def anchor_rule_def)
  qed
qed

subsection \<open>ComposeTx at the concrete inputs\<close>

lemma compose_hyps:
  "PolyHash tx_far \<noteq> []" "DstPolyEpochStartHeight tx_far \<noteq> 0"
  "PolyHash tx_rot \<noteq> []" "DstPolyEpochStartHeight tx_rot \<noteq> 0"
  "PolyHash tx_c \<noteq> []" "DstPolyEpochStartHeight tx_c \<noteq> 0"
  "PolyHash tx_max \<noteq> []" "DstPolyEpochStartHeight tx_max \<noteq> 0"
  by code_simp+

lemma compose_resolve:
  "resolve_PolyHeight nd_c tx_far = (tx_far, [], None)"
  "resolve_PolyHeight nd_c tx_rot = (tx_rot, [], None)"
  "resolve_PolyHeight nd_c tx_c = (tx_c, [], None)"
  "resolve_PolyHeight nd_c tx_max = (tx_max, [], None)"
  by code_simp+

lemma compose_header:
  "GetHeaderByHeight nd_c (PolyHeight tx_far + 1) = (Some hdr_quiet, None)"
  "GetHeaderByHeight nd_c (PolyHeight tx_rot + 1) = (Some hdr_rot, None)"
  "GetHeaderByHeight nd_c (PolyHeight tx_c + 1) = (Some hdr_quiet, None)"
  "GetHeaderByHeight nd_c (PolyHeight tx_max + 1) = (Some hdr_quiet, None)"
  by code_simp+

lemma compose_rule:
  "anchor_rule (PolyHeight tx_far) (DstPolyEpochStartHeight tx_far)
     (fst (CheckEpoch toy_keys (tx_far\<lparr>PolyHeader := Some hdr_quiet\<rparr>) (Some hdr_quiet))) = Some 43"
  "anchor_rule (PolyHeight tx_rot) (DstPolyEpochStartHeight tx_rot)
     (fst (CheckEpoch toy_keys (tx_rot\<lparr>PolyHeader := Some hdr_rot\<rparr>) (Some hdr_rot))) = Some 22"
  "anchor_rule (PolyHeight tx_c) (DstPolyEpochStartHeight tx_c)
     (fst (CheckEpoch toy_keys (tx_c\<lparr>PolyHeader := Some hdr_quiet\<rparr>) (Some hdr_quiet))) = None"
  "anchor_rule (PolyHeight tx_max) (DstPolyEpochStartHeight tx_max)
     (fst (CheckEpoch toy_keys (tx_max\<lparr>PolyHeader := Some hdr_quiet\<rparr>) (Some hdr_quiet))) = Some 0"
  by code_simp+

lemma compose_runs:
  "fetched_headers (fst (snd (ComposeTx toy_keys ext_c nd_c tx_far))) = [11, 43]"
  "fetched_merkle (fst (snd (ComposeTx toy_keys ext_c nd_c tx_far))) = [(11, 43)]"
  "fetched_headers (fst (snd (ComposeTx toy_keys ext_c nd_c tx_rot))) = [21, 22]"
  "fetched_merkle (fst (snd (ComposeTx toy_keys ext_c nd_c tx_rot))) = [(21, 22)]"
  "fetched_headers (fst (snd (ComposeTx toy_keys ext_c nd_c tx_c))) = [11]"
  "fetched_merkle (fst (snd (ComposeTx toy_keys ext_c nd_c tx_c))) = []"
  by code_simp+

subsection \<open>Anchor selection\<close>

text \<open>
  C3 as stated fails where the anchor height wraps: with
  \<open>dstPolyEpochStartHeight = 2^32 - 1\<close> and a smaller \<open>polyHeight\<close> the anchor height
  \<open>dstPolyEpochStartHeight + 1\<close> is 0 in \<open>uint32\<close>, and \<open>ComposeTx\<close> fetches the header
  at \<open>polyHeight + 1\<close> only: no anchor header, no anchor proof.
\<close>

theorem anchor_wraps_to_none:
  "PolyHeight tx_max < DstPolyEpochStartHeight tx_max \<and>
   fetched_headers (fst (snd (ComposeTx toy_keys ext_c nd_c tx_max))) = [11] \<and>
   fetched_merkle (fst (snd (ComposeTx toy_keys ext_c nd_c tx_max))) = [] \<and>
   AnchorHeader (fst (ComposeTx toy_keys ext_c nd_c tx_max)) = None \<and>
   AnchorProof (fst (ComposeTx toy_keys ext_c nd_c tx_max)) = []"
  by code_simp

text \<open>
  C3, amended.  For every Tx that \<open>ComposeTx\<close> composes (hash and epoch start height
  set, height resolved, header at \<open>polyHeight + 1\<close> fetched), the anchor height is
  \<open>dstPolyEpochStartHeight + 1\<close> if \<open>polyHeight < dstPolyEpochStartHeight\<close>, otherwise
  \<open>polyHeight + 2\<close> if epoch detection on the fetched header reports a keeper change,
  both in \<open>uint32\<close>, and otherwise there is none.  When there is an anchor height and it
  is not 0, the only other header fetched is the one at that height, it is stored as
  the anchor header, and the Merkle proof from \<open>polyHeight + 1\<close> to it is fetched (once
  the header fetch succeeded) and stored (once both succeeded).  When there is none, or
  it wrapped to 0, no anchor header and no anchor proof are fetched or stored.
\<close>

theorem ComposeTx_anchor_selection:
  assumes "PolyHash tx \<noteq> []" and "DstPolyEpochStartHeight tx \<noteq> 0"
    and r: "resolve_PolyHeight nd tx = (tx1, tr1, None)"
    and h: "GetHeaderByHeight nd (PolyHeight tx1 + 1) = (pHdr, None)"
    and c: "ComposeTx L X nd tx = (tx', tr, err)"
  shows "anchor_outcome nd tx (PolyHeight tx1)
           (anchor_rule (PolyHeight tx1) (DstPolyEpochStartHeight tx)
              (fst (CheckEpoch L (tx1\<lparr>PolyHeader := pHdr\<rparr>) pHdr))) tx' tr"
proof -
  let ?tx2 = "tx1\<lparr>PolyHeader := pHdr\<rparr>"
  let ?tr2 = "tr1 @ [RpcGetHeaderByHeight (PolyHeight tx1 + 1)]"
  let ?anchor = "anchor_rule (PolyHeight tx1) (DstPolyEpochStartHeight tx)
              (fst (CheckEpoch L ?tx2 pHdr))"
  from resolve_PolyHeight_frame [OF r] have
    f1: "fetched_headers tr1 = []" "fetched_merkle tr1 = []" and
    t1: "tx1 = tx\<lparr>PolyHeight := PolyHeight tx1\<rparr>" by auto
  have t2: "AnchorHeader ?tx2 = AnchorHeader tx" "AnchorProof ?tx2 = AnchorProof tx"
    "DstPolyEpochStartHeight ?tx2 = DstPolyEpochStartHeight tx"
    by (subst t1, simp)+
  have t2': "PolyHeight ?tx2 = PolyHeight tx1" "PolyHeader ?tx2 = pHdr"
    by simp_all
  have f2: "fetched_headers ?tr2 = [PolyHeight tx1 + 1]" "fetched_merkle ?tr2 = []"
    by (simp_all add: f1)
  obtain ah e where sa: "select_anchor L ?tx2 = (ah, e)"
    by (cases "select_anchor L ?tx2") auto
  note rule = select_anchor_rule [OF sa, unfolded t2 t2']
  note unfold = ComposeTx_def Let_def
  show ?thesis
  proof (cases e)
    case (Some err1)
    with c assms(1,2) r h sa have "tx' = ?tx2" "tr = ?tr2" by (simp_all add: unfold)
    moreover from rule Some have "?anchor = None" by simp
    ultimately show ?thesis
      using t2 f2 by (simp add: anchor_outcome_def)
  next
    case None
    obtain tx3 tr3 e3 where fa: "fetch_anchor nd ?tx2 ah = (tx3, tr3, e3)"
      by (cases "fetch_anchor nd ?tx2 ah") auto
    have rest: "AnchorHeader tx' = AnchorHeader tx3 \<and> AnchorProof tx' = AnchorProof tx3 \<and>
                fetched_headers tr = fetched_headers (?tr2 @ tr3) \<and>
                fetched_merkle tr = fetched_merkle (?tr2 @ tr3)"
    proof (cases e3)
      case (Some err3)
      with c assms(1,2) r h sa None fa show ?thesis by (simp add: unfold)
    next
      case e3: None
      obtain tx4 param path evt e4 tr4 where
        gp: "GetPolyParams X nd tx3 = (tx4, (param, path, evt, e4), tr4)"
        by (cases "GetPolyParams X nd tx3") auto
      note g = GetPolyParams_frame [OF gp]
      show ?thesis
      proof (cases e4)
        case (Some err4)
        with c assms(1,2) r h sa None fa e3 gp g show ?thesis by (auto simp: unfold)
      next
        case e4: None
        obtain tx5 e5 where cm: "check_method X (tx4\<lparr>MerkleValue := param, AuditPath := path\<rparr>) = (tx5, e5)"
          by (cases "check_method X (tx4\<lparr>MerkleValue := param, AuditPath := path\<rparr>)") auto
        from check_method_frame [OF cm] c assms(1,2) r h sa None fa e3 gp g e4 cm
        show ?thesis by (auto simp: unfold)
      qed
    qed
    show ?thesis
    proof (cases "ah = 0")
      case True
      with fa have "tx3 = ?tx2" "tr3 = []" by (simp_all add: fetch_anchor_zero)
      moreover from rule None True have "?anchor = None \<or> ?anchor = Some 0"
        by (auto split: option.splits)
      ultimately show ?thesis
        using rest t2 f2 by (auto simp: anchor_outcome_def)
    next
      case False
      with rule None have a: "?anchor = Some ah" by (auto split: option.splits)
      from fetch_anchor_nonzero [OF False fa] rest t2 f2 a False show ?thesis
        by (simp add: anchor_outcome_def)
    qed
  qed
qed

theorem ComposeTx_anchor_selection_witness:
  "anchor_outcome nd_c tx_far (PolyHeight tx_far) (Some 43)
     (fst (ComposeTx toy_keys ext_c nd_c tx_far)) (fst (snd (ComposeTx toy_keys ext_c nd_c tx_far))) \<and>
   fetched_headers (fst (snd (ComposeTx toy_keys ext_c nd_c tx_far))) = [11, 43] \<and>
   fetched_merkle (fst (snd (ComposeTx toy_keys ext_c nd_c tx_far))) = [(11, 43)] \<and>
   anchor_outcome nd_c tx_rot (PolyHeight tx_rot) (Some 22)
     (fst (ComposeTx toy_keys ext_c nd_c tx_rot)) (fst (snd (ComposeTx toy_keys ext_c nd_c tx_rot))) \<and>
   fetched_headers (fst (snd (ComposeTx toy_keys ext_c nd_c tx_rot))) = [21, 22] \<and>
   fetched_merkle (fst (snd (ComposeTx toy_keys ext_c nd_c tx_rot))) = [(21, 22)] \<and>
   anchor_outcome nd_c tx_c (PolyHeight tx_c) None
     (fst (ComposeTx toy_keys ext_c nd_c tx_c)) (fst (snd (ComposeTx toy_keys ext_c nd_c tx_c))) \<and>
   fetched_headers (fst (snd (ComposeTx toy_keys ext_c nd_c tx_c))) = [11] \<and>
   fetched_merkle (fst (snd (ComposeTx toy_keys ext_c nd_c tx_c))) = [] \<and>
   anchor_outcome nd_c tx_max (PolyHeight tx_max) (Some 0)
     (fst (ComposeTx toy_keys ext_c nd_c tx_max)) (fst (snd (ComposeTx toy_keys ext_c nd_c tx_max)))"
proof -
  have pair: "ComposeTx toy_keys ext_c nd_c tx =
      (fst (ComposeTx toy_keys ext_c nd_c tx), fst (snd (ComposeTx toy_keys ext_c nd_c tx)),
       snd (snd (ComposeTx toy_keys ext_c nd_c tx)))" for tx
    by simp
  note a = ComposeTx_anchor_selection [OF compose_hyps(1,2) compose_resolve(1) compose_header(1) pair,
      unfolded compose_rule]
  note b = ComposeTx_anchor_selection [OF compose_hyps(3,4) compose_resolve(2) compose_header(2) pair,
      unfolded compose_rule]
  note c = ComposeTx_anchor_selection [OF compose_hyps(5,6) compose_resolve(3) compose_header(3) pair,
      unfolded compose_rule]
  note d = ComposeTx_anchor_selection [OF compose_hyps(7,8) compose_resolve(4) compose_header(4) pair,
      unfolded compose_rule]
  from a b c d compose_runs show ?thesis by simp
qed

subsection \<open>The allow-list check\<close>

text \<open>
  With a decoded parameter present, the check returns the invalid-transaction error
  exactly when the method is on the allow-list.
\<close>

lemma convert_sigs_error:
  "convert_sigs X sigs acc = (r, Some e) \<Longrightarrow> \<exists>x. e = ConvertToEthCompatibleError x"
  by (induction sigs arbitrary: acc) (auto split: prod.splits option.splits)

lemma CollectSigs_error:
  "CollectSigs X tx = (tx', Some e) \<Longrightarrow>
     (\<exists>x. e = ConvertToEthCompatibleError x) \<or> e = Panic ''nil pointer dereference''"
  by (auto simp: CollectSigs_def Let_def dest: convert_sigs_error
        split: prod.splits option.splits if_splits)

lemma check_method_rejects_iff_allowed:
  assumes "MerkleValue tx = Some mv" and "MakeTxParam mv = Some p"
  shows "(\<exists>m. snd (check_method X tx) = Some (ERR_INVALID_TX (SrcChainId tx) (PolyHash tx) m)) \<longleftrightarrow>
           AllowMethod X (Method p)"
proof (cases "AllowMethod X (Method p)")
  case True
  with assms show ?thesis
    by (auto simp: check_method_def invalid_poly_tx_def)
next
  case False
  obtain tx' e where c: "CollectSigs X tx = (tx', e)" by (cases "CollectSigs X tx") auto
  with assms False have "snd (check_method X tx) = e" by (simp add: check_method_def)
  moreover have "e \<noteq> Some (ERR_INVALID_TX (SrcChainId tx) (PolyHash tx) m)" for m
    using CollectSigs_error [of X tx tx'] c by (cases e) auto
  ultimately show ?thesis using False by simp
qed

text \<open>
  C1 is right about the intent and the code differs: the condition of \<open>ComposeTx\<close> calls
  \<open>AllowMethod\<close> without negating it.  A Tx whose decoded method \<open>unlock\<close> is on the
  allow-list is rejected with the invalid-transaction error, and one whose method
  \<open>evil\<close> is not on it goes on to signature collection and succeeds.
\<close>

theorem ComposeTx_rejects_allowed_method:
  "AllowMethod ext_c ''unlock'' \<and>
   map_option (map_option Method \<circ> MakeTxParam) (MerkleValue (fst (ComposeTx toy_keys ext_c nd_c tx_c))) =
     Some (Some ''unlock'') \<and>
   snd (snd (ComposeTx toy_keys ext_c nd_c tx_c)) = Some (ERR_INVALID_TX 0 ''ab'' ''missing param'') \<and>
   \<not> AllowMethod ext_c ''evil'' \<and>
   map_option (map_option Method \<circ> MakeTxParam) (MerkleValue (fst (ComposeTx toy_keys ext_c nd_c tx_evil))) =
     Some (Some ''evil'') \<and>
   snd (snd (ComposeTx toy_keys ext_c nd_c tx_evil)) = None \<and>
   DstSigs (fst (ComposeTx toy_keys ext_c nd_c tx_evil)) = [1, 2]"
  by code_simp

subsection \<open>The submission worker\<close>

lemma run_blocks_or_exits:
  "run fuel s imp B Done w = Some w' \<Longrightarrow>
     bus w' = bus w \<and> actions w' = actions w \<and> Done (now w') \<and> now w \<le> now w'"
proof (induction fuel arbitrary: w)
  case 0
  then show ?case by simp
next
  case (Suc fuel)
  show ?case
  proof (cases "Done (now w)")
    case True
    with Suc.prems show ?thesis by (simp add: go_select_def)
  next
    case False
    with Suc.prems have "run fuel s imp B Done (w\<lparr>now := Suc (now w)\<rparr>) = Some w'"
      by (simp add: go_select_def)
    from Suc.IH [OF this] show ?thesis by simp
  qed
qed

lemma run_returns:
  "Done (now w + d) \<Longrightarrow> d < fuel \<Longrightarrow> \<exists>w'. run fuel s imp B Done w = Some w'"
proof (induction fuel arbitrary: w d)
  case 0
  then show ?case by simp
next
  case (Suc fuel)
  show ?case
  proof (cases "Done (now w)")
    case True
    then show ?thesis by (simp add: go_select_def)
  next
    case False
    with Suc.prems obtain d' where d': "d = Suc d'" by (cases d) auto
    with Suc.prems have "Done (now (w\<lparr>now := Suc (now w)\<rparr>) + d')" "d' < fuel" by simp_all
    from Suc.IH [OF this] False show ?thesis by (simp add: go_select_def)
  qed
qed

lemma run_never_done:
  "\<forall>t. \<not> Done t \<Longrightarrow> run fuel s imp B Done w = None"
  by (induction fuel arbitrary: w) (simp_all add: go_select_def)

text \<open>
  C2 is right about the intent and the code differs: the \<open>select\<close> of \<open>run\<close> has the
  single case \<open><-s.Done()\<close> and no \<open>default\<close>, so the worker blocks there until the
  done-signal and then returns; it never pops.  With one Tx queued and the signal given
  at time 3, the worker exits at time 3 with the queue as it was and nothing popped,
  submitted or pushed.
\<close>

theorem run_blocks_until_done:
  "run 10 s0 imp0 list_bus (\<lambda>t. 3 \<le> t) \<lparr>bus = [tx0], now = 0, actions = []\<rparr> =
     Some \<lparr>bus = [tx0], now = 3, actions = []\<rparr>"
  by code_simp

subsection \<open>Scan\<close>

lemma six_args:
  "6 \<le> length states \<Longrightarrow>
     \<exists>a0 a1 a2 a3 a4 a5 rest. states = a0 # a1 # a2 # a3 # a4 # a5 # rest"
proof -
  assume l: "6 \<le> length states"
  then obtain a0 r0 where 0: "states = a0 # r0" by (cases states) auto
  with l obtain a1 r1 where 1: "r0 = a1 # r1" by (cases r0) auto
  with l 0 obtain a2 r2 where 2: "r1 = a2 # r2" by (cases r1) auto
  with l 0 1 obtain a3 r3 where 3: "r2 = a3 # r3" by (cases r2) auto
  with l 0 1 2 obtain a4 r4 where 4: "r3 = a4 # r4" by (cases r3) auto
  with l 0 1 2 3 obtain a5 r5 where 5: "r4 = a5 # r5" by (cases r4) auto
  from 0 1 2 3 4 5 show ?thesis by blast
qed

lemma scan_notify_spec:
  assumes "well_typed X n"
  shows "scan_notify X B height txHash n =
           (case notification_tx X B height txHash n of
              Some tx \<Rightarrow> Made tx
            | None \<Rightarrow> (case notification_log X B txHash n of
                         Some l \<Rightarrow> Logged l | None \<Rightarrow> Skipped))"
proof (cases "is_makeProof X n")
  case False
  with assms show ?thesis
    by (auto simp: scan_notify_def notification_tx_def notification_log_def is_makeProof_def
          well_typed_def not_le split: jvalue.splits if_splits)
next
  case True
  then obtain states where s: "States n = JArray states" "6 \<le> length states"
      "states ! 0 = JString ''makeProof''" and addr: "ContractAddress n = CCM_ADDRESS X"
    by (auto simp: is_makeProof_def split: jvalue.splits)
  from six_args [OF s(2)] obtain a0 a1 a2 a3 a4 a5 rest where
    st: "states = a0 # a1 # a2 # a3 # a4 # a5 # rest" by blast
  from assms s addr st obtain src dst txid key where
    ty: "a1 = JNumber src" "a2 = JNumber dst" "a3 = JString txid" "a5 = JString key"
    by (cases a1; cases a2; cases a3; cases a5) (auto simp: well_typed_def)
  from s(3) st have a0: "a0 = JString ''makeProof''" by simp
  show ?thesis
    using True addr s(1) st ty a0
    by (simp add: scan_notify_def notification_tx_def notification_log_def switch_SrcChainId_def)
qed

lemma notification_tx_no_log:
  "notification_tx X B height txHash n = Some tx \<Longrightarrow> notification_log X B txHash n = None"
  by (auto simp: notification_tx_def notification_log_def
        split: if_splits jvalue.splits list.splits)

lemma scan_notifies_spec:
  "\<forall>n\<in>set ns. well_typed X n \<Longrightarrow>
   scan_notifies X B height txHash ns (txs, logs) =
     Inr (txs @ List.map_filter (notification_tx X B height txHash) ns,
          logs @ List.map_filter (notification_log X B txHash) ns)"
proof (induction ns arbitrary: txs logs)
  case Nil
  then show ?case by (simp add: List.map_filter_simps)
next
  case (Cons n ns)
  then have w: "well_typed X n" and ws: "\<forall>n\<in>set ns. well_typed X n" by simp_all
  show ?case
    using Cons.IH [OF ws]
    by (auto simp: scan_notify_spec [OF w] List.map_filter_simps notification_tx_no_log
          split: option.splits)
qed

lemma scan_events_spec:
  "\<forall>ev\<in>set events. \<forall>n\<in>set (Notify ev). well_typed X n \<Longrightarrow>
   scan_events X B height events (txs, logs) =
     Inr (txs @ concat (map (\<lambda>ev. List.map_filter (notification_tx X B height (TxHash ev)) (Notify ev)) events),
          logs @ concat (map (\<lambda>ev. List.map_filter (notification_log X B (TxHash ev)) (Notify ev)) events))"
proof (induction events arbitrary: txs logs)
  case Nil
  then show ?case by simp
next
  case (Cons ev events)
  then have w: "\<forall>n\<in>set (Notify ev). well_typed X n"
    and ws: "\<forall>ev\<in>set events. \<forall>n\<in>set (Notify ev). well_typed X n" by simp_all
  show ?case
    using Cons.IH [OF ws] by (simp add: scan_notifies_spec [OF w])
qed

lemma scan_hyps:
  "GetSmartContractEventByBlock nd_scan (ucast (1000 :: u64)) = ([event_ok], None)"
  "well_typed ext_c notify_ok"
  "Notify event_ok = [notify_ok]"
  "TxHash event_ok = ''ph1''"
  by code_simp+

lemma scan_expected:
  "notification_tx ext_c base_c 1000 ''ph1'' notify_ok = Some tx_scanned"
  "notification_log ext_c base_c ''ph1'' notify_ok = None"
  by code_simp+

text \<open>
  C9 as stated fails for a notification whose arguments do not have the JSON types the
  code asserts: with the destination chain id given as the string \<open>"3"\<close>, \<open>Scan\<close>
  panics instead of producing a Tx.
\<close>

theorem Scan_panics_on_untyped_argument:
  "is_makeProof ext_c notify_bad \<and>
   fst (GetSmartContractEventByBlock nd_bad (ucast (1000 :: u64))) = [\<lparr>TxHash = ''ph1'', Notify = [notify_bad]\<rparr>] \<and>
   Scan ext_c base_c nd_bad 1000 = Inl (Panic ''interface conversion'')"
  by code_simp

text \<open>
  C9, amended.  When the node returns the events of the block, every
  cross-chain-manager notification in it carries a JSON array of arguments, and every
  one of them whose first argument is \<open>"makeProof"\<close> and which has at least six
  arguments has numbers as arguments 2 and 3 and strings as arguments 4 and 6, then
  \<open>Scan\<close> returns, in order, one Tx for each of these makeProof notifications with a
  non-zero destination chain id: srcChainId from argument 2, dstChainId from argument
  3, txId from argument 4 (reversed by \<open>ReverseHex\<close> for source chains NEO, NEO3 and
  ONT), polyKey from argument 6, polyHash the event's hash, and polyHeight the 32-bit
  height at which the block was fetched.  A zero destination chain id is logged and the
  notification skipped; the scan does not fail.
\<close>

theorem Scan_makeProof:
  assumes "GetSmartContractEventByBlock nd (ucast height) = (events, None)"
    and "\<forall>ev\<in>set events. \<forall>n\<in>set (Notify ev). well_typed X n"
  shows "Scan X B nd height =
     Inr (concat (map (\<lambda>ev. List.map_filter (notification_tx X B height (TxHash ev)) (Notify ev)) events),
          concat (map (\<lambda>ev. List.map_filter (notification_log X B (TxHash ev)) (Notify ev)) events))"
  using scan_events_spec [OF assms(2), of B height "[]" "[]"] assms(1)
  by (simp add: Scan_def)

theorem Scan_makeProof_witness:
  "Scan ext_c base_c nd_scan 1000 = Inr ([tx_scanned], []) \<and>
   SrcChainId tx_scanned = 2 \<and> DstChainId tx_scanned = 3 \<and> TxId tx_scanned = ''tx123'' \<and>
   PolyKey tx_scanned = ''stateKey1'' \<and> PolyHeight tx_scanned = 1000"
proof -
  have w: "\<forall>ev\<in>set [event_ok]. \<forall>n\<in>set (Notify ev). well_typed ext_c n"
    by (simp add: scan_hyps)
  have "Scan ext_c base_c nd_scan 1000 = Inr ([tx_scanned], [])"
    using Scan_makeProof [OF scan_hyps(1) w, of base_c]
    by (simp add: scan_hyps scan_expected List.map_filter_simps)
  moreover have "SrcChainId tx_scanned = 2 \<and> DstChainId tx_scanned = 3 \<and> TxId tx_scanned = ''tx123'' \<and>
     PolyKey tx_scanned = ''stateKey1'' \<and> PolyHeight tx_scanned = 1000"
    by (simp add: tx_scanned_def)
  ultimately show ?thesis by simp
qed

subsection \<open>Validate\<close>

lemma scanTx_never_nil:
  "scanTx X B nd hash \<noteq> (None, None)"
proof -
  have "scanTx_notifies X B hash txHash ns \<noteq> (None, None)" for txHash ns
    by (induction ns) (auto split: notify_result.splits)
  then show ?thesis
    by (auto simp: scanTx_def split: prod.splits option.splits)
qed

lemma scanTx_error_no_violation:
  "scanTx X B nd hash = (t, Some e) \<Longrightarrow> \<not> is_violation e"
proof -
  have "scanTx_notifies X B hash txHash ns = (t, Some e) \<Longrightarrow> \<not> is_violation e" for txHash ns
    by (induction ns) (auto simp: is_violation_def split: notify_result.splits)
  then show "scanTx X B nd hash = (t, Some e) \<Longrightarrow> \<not> is_violation e"
    by (auto simp: scanTx_def is_violation_def split: prod.splits option.splits)
qed

text \<open>
  The parts of C6 that hold.  With \<open>t\<close> the record re-derived by \<open>scanTx\<close>, a differing
  source chain id, then a differing destination chain id, then a differing lower-cased
  destination contract address each give their violation error, and \<open>validate\<close>
  returns success only when all three agree.
\<close>

lemma validate_mismatch_errors:
  "(scanTx X B nd (PolyHash tx) = (Some t, None) \<longrightarrow>
      (SrcChainId tx \<noteq> SrcChainId t \<longrightarrow>
         validate X B getProof nd tx =
           Some (ERR_TX_VOILATION_SrcChainID (SrcChainId tx) (SrcChainId t))) \<and>
      (SrcChainId tx = SrcChainId t \<and> DstChainId tx \<noteq> DstChainId t \<longrightarrow>
         validate X B getProof nd tx =
           Some (ERR_TX_VOILATION_DstChainID (DstChainId tx) (DstChainId t))) \<and>
      (SrcChainId tx = SrcChainId t \<and> DstChainId tx = DstChainId t \<longrightarrow>
         (\<forall>v p. getProof nd (PolyHeight t) (PolyKey t) = (Some v, None) \<and> MakeTxParam v = Some p \<and>
                LowerHex B (hex_EncodeToString (ToContractAddress p)) \<noteq> LowerHex B (DstProxy tx) \<longrightarrow>
            validate X B getProof nd tx =
              Some (ERR_TX_VOILATION_ToContract (LowerHex B (DstProxy tx))
                      (LowerHex B (hex_EncodeToString (ToContractAddress p))))))) \<and>
   (validate X B getProof nd tx = None \<longrightarrow>
      (\<exists>t v p. scanTx X B nd (PolyHash tx) = (Some t, None) \<and>
         SrcChainId tx = SrcChainId t \<and> DstChainId tx = DstChainId t \<and>
         getProof nd (PolyHeight t) (PolyKey t) = (Some v, None) \<and> MakeTxParam v = Some p \<and>
         LowerHex B (hex_EncodeToString (ToContractAddress p)) = LowerHex B (DstProxy tx)))"
proof (intro conjI impI allI)
  assume "validate X B getProof nd tx = None"
  then show "\<exists>t v p. scanTx X B nd (PolyHash tx) = (Some t, None) \<and>
         SrcChainId tx = SrcChainId t \<and> DstChainId tx = DstChainId t \<and>
         getProof nd (PolyHeight t) (PolyKey t) = (Some v, None) \<and> MakeTxParam v = Some p \<and>
         LowerHex B (hex_EncodeToString (ToContractAddress p)) = LowerHex B (DstProxy tx)"
    by (auto simp: validate_def Let_def split: prod.splits option.splits if_splits)
qed (auto simp: validate_def Let_def)

text \<open>
  An error of the primary node is never turned into success: \<open>Validate\<close> then returns
  an error (or panics), whatever the other nodes answer.
\<close>

lemma validate_others_not_success:
  "validate_others X B getProof nodes tx (Some err) \<noteq> None"
  by (induction nodes) (auto split: option.splits)

lemma Validate_not_success:
  "validate X B getProof primary tx = Some err \<Longrightarrow>
   Validate X B getProof primary allNodes tx \<noteq> None"
  using validate_others_not_success [of X B getProof allNodes tx err]
  by (auto simp: Validate_def)

text \<open>
  The proof-missing branch after the scan cannot be taken: \<open>scanTx\<close> never returns
  neither a Tx nor an error, and what it returns when it finds no notification is its
  own error.
\<close>

lemma validate_scan_error:
  "scanTx X B nd (PolyHash tx) = (t, Some e) \<Longrightarrow>
   validate X B getProof nd tx = Some e \<and> e \<noteq> ERR_TX_PROOF_MISSING"
proof -
  have "scanTx_notifies X B hash txHash ns = (t, Some e) \<Longrightarrow> e \<noteq> ERR_TX_PROOF_MISSING"
    for hash txHash ns
    by (induction ns) (auto split: notify_result.splits)
  then have "scanTx X B nd (PolyHash tx) = (t, Some e) \<Longrightarrow> e \<noteq> ERR_TX_PROOF_MISSING"
    by (auto simp: scanTx_def split: prod.splits option.splits)
  then show "scanTx X B nd (PolyHash tx) = (t, Some e) \<Longrightarrow>
      validate X B getProof nd tx = Some e \<and> e \<noteq> ERR_TX_PROOF_MISSING"
    by (simp add: validate_def split: option.splits)
qed

lemma validate_violation_examples:
  "validate ext_c base_c gp_c nd_scan (tx_v\<lparr>SrcChainId := 9\<rparr>) =
     Some (ERR_TX_VOILATION_SrcChainID 9 2) \<and>
   validate ext_c base_c gp_c nd_scan (tx_v\<lparr>DstChainId := 7\<rparr>) =
     Some (ERR_TX_VOILATION_DstChainID 7 3) \<and>
   validate ext_c base_c gp_c nd_scan (tx_v\<lparr>DstProxy := ''ffff''\<rparr>) =
     Some (ERR_TX_VOILATION_ToContract ''ffff'' ''abcd'') \<and>
   validate ext_c base_c gp_c nd_scan tx_v = None \<and>
   Validate ext_c base_c gp_c nd_scan [nd_scan] (tx_v\<lparr>SrcChainId := 9\<rparr>) =
     Some (ERR_TX_VOILATION_SrcChainID 9 2)"
  by code_simp

text \<open>
  C6 is right about the intent and the code differs in its third part.  \<open>validate\<close>
  tests \<open>t == nil\<close> after the scan to return the proof-missing error, but \<open>scanTx\<close>
  returns the error \<open>hash ... hasn't event\<close> when the event has no makeProof
  notification, so for a hash with no derivable proof \<open>validate\<close> and \<open>Validate\<close>
  return that error and not the proof-missing one.
\<close>

theorem validate_missing_event_is_generic:
  "GetSmartContractEvent nd_scan ''ph2'' = (Some \<lparr>TxHash = ''ph2'', Notify = []\<rparr>, None) \<and>
   scanTx ext_c base_c nd_scan ''ph2'' = (None, Some (HasNoEvent ''ph2'')) \<and>
   validate ext_c base_c gp_c nd_scan (tx_v\<lparr>PolyHash := ''ph2''\<rparr>) = Some (HasNoEvent ''ph2'') \<and>
   validate ext_c base_c gp_c nd_scan (tx_v\<lparr>PolyHash := ''ph2''\<rparr>) \<noteq> Some ERR_TX_PROOF_MISSING \<and>
   Validate ext_c base_c gp_c nd_scan [nd_scan] (tx_v\<lparr>PolyHash := ''ph2''\<rparr>) =
     Some (HasNoEvent ''ph2'')"
  by code_simp

end
